theory Spec2Isabelle
  imports Complex_Main
begin

section \<open>Values handled by the benchmark driver\<close>

text \<open>
  The driver \<^verbatim>\<open>bench/bench.py\<close> orchestrates calls to collaborators that live outside the
  file (tvm, topi, numpy, the rpc layer and the repository modules \<^verbatim>\<open>data_type\<close>,
  \<^verbatim>\<open>workloads\<close>, \<^verbatim>\<open>utils\<close>, \<^verbatim>\<open>correctness\<close>). Objects those collaborators hand back and the
  driver never looks into (a schedule, a compiled module, a timer, a device context,
  an rpc session) are opaque handles.
\<close>

type_synonym shape = "int list"
type_synonym handle = string

text \<open>Every Python exception is a \<^verbatim>\<open>BaseException\<close>; the driver only ever catches that class.\<close>

datatype exn =
    KeyError string
  | IndexError string
  | UnboundLocalError string
  | Raised string

text \<open>The object returned by \<^verbatim>\<open>get_data_type\<close>, with its two accessors.\<close>

record data_type =
  tvm_type :: string
  np_type :: string

text \<open>One workload of \<^verbatim>\<open>get_workloads\<close>; each field is the accessor method of the same name.\<close>

record workload =
  wl_space :: int
  wl_input_channel :: int
  wl_output_channel :: int
  wl_kernel :: int
  wl_pad :: int
  wl_stride :: int
  wl_warmup :: int
  wl_run :: int
  wl_depthwise :: bool

text \<open>A symbolic tvm tensor: the driver reads its \<^verbatim>\<open>shape\<close> and \<^verbatim>\<open>dtype\<close> only.\<close>

record tensor =
  t_shape :: shape
  t_dtype :: string

text \<open>
  Host arrays are kept symbolically, so that the origin of a buffer's contents can be read
  off: \<open>Random_random k size\<close> is the array returned by the \<open>k\<close>-th call (counting from
  0) of \<^verbatim>\<open>np.random.random\<close>, \<open>Astype a t\<close> is \<^verbatim>\<open>a.astype(t)\<close> and \<open>Zeros size t\<close> is
  \<^verbatim>\<open>np.zeros(size, dtype=t)\<close>. \<open>NDArray a ctx\<close> is the device buffer \<^verbatim>\<open>tvm.nd.array(a, ctx)\<close>.
\<close>

datatype nparray =
    Random_random nat shape
  | Astype nparray string
  | Zeros shape string

datatype ndarray = NDArray nparray handle

fun np_dtype :: "nparray \<Rightarrow> string" where
  "np_dtype (Random_random k sz) = ''float64''"
| "np_dtype (Astype a t) = t"
| "np_dtype (Zeros sz t) = t"

fun nd_dtype :: "ndarray \<Rightarrow> string" where
  "nd_dtype (NDArray a ctx) = np_dtype a"

section \<open>Observable behaviour: calls to collaborators and printed lines\<close>

text \<open>One constructor per call the driver makes to a collaborator, with the arguments it passes.\<close>

datatype extcall =
    Builtin_int string
  | Rpc_connect_tracker string int
  | Tracker_request handle string
  | Get_data_type string
  | Get_workloads string
  | Config_arch string string string "handle option"
  | Get_input_and_filter_shape string int int int int bool
  | Tvm_placeholder shape string
  | Tvm_var string
  | Np_random_random shape
  | Autotvm_apply_history_best string
  | Tvm_target_create string
  | Topi_nn_conv2d tensor tensor "int list" "int list" string string
  | Topi_nn_depthwise_conv2d string tensor tensor "int list" int string
  | Topi_generic_schedule string "tensor list"
  | Tvm_nd_array nparray handle
  | Get_num_ops int int int int bool
  | Tvm_build_config
  | Tvm_build handle "tensor list" string "string option" string
  | Util_tempdir
  | Tempdir_relpath handle string
  | Export_library handle string
  | Remote_upload handle string
  | Remote_load_module handle string
  | Invoke handle ndarray ndarray ndarray
  | Time_evaluator handle handle int
  | Timer_call handle ndarray ndarray ndarray
  | Test_correctness int int int int int ndarray ndarray ndarray string string bool

text \<open>
  A printed line is either \<^verbatim>\<open>print(e)\<close> for a caught exception or a format string with
  the arguments given to \<^verbatim>\<open>format\<close>, in order.
\<close>

datatype fmt_arg = S string | Sh shape | Fl real

datatype printed = Exc exn | Line string "fmt_arg list"

datatype event = Call extcall | Exit extcall | Print printed

type_synonym trace = "event list"

text \<open>
  The collaborators are not under verification. Each is an oracle that, given everything
  the driver did so far and the call, either raises or returns; there is one oracle per
  result type.
\<close>

record env =
  returns_none :: "trace \<Rightarrow> extcall \<Rightarrow> exn + unit"
  returns_handle :: "trace \<Rightarrow> extcall \<Rightarrow> exn + handle"
  returns_int :: "trace \<Rightarrow> extcall \<Rightarrow> exn + int"
  returns_mean :: "trace \<Rightarrow> extcall \<Rightarrow> exn + real"
  returns_tensor :: "trace \<Rightarrow> extcall \<Rightarrow> exn + tensor"
  returns_shapes :: "trace \<Rightarrow> extcall \<Rightarrow> exn + shape \<times> shape"
  returns_arch :: "trace \<Rightarrow> extcall \<Rightarrow> exn + string option \<times> string option \<times> handle"
  returns_data_type :: "trace \<Rightarrow> extcall \<Rightarrow> exn + data_type"
  returns_workloads :: "trace \<Rightarrow> extcall \<Rightarrow> exn + workload list"

section \<open>Control flow: sequencing, exceptions, loops, context managers\<close>

type_synonym 'a io = "trace \<Rightarrow> (exn + 'a) \<times> trace"

definition io_return :: "'a \<Rightarrow> 'a io" where
  "io_return x tr = (Inr x, tr)"

definition io_raise :: "exn \<Rightarrow> 'a io" where
  "io_raise e tr = (Inl e, tr)"

definition io_bind :: "'a io \<Rightarrow> ('a \<Rightarrow> 'b io) \<Rightarrow> 'b io" where
  "io_bind m f tr = (case m tr of (Inl e, tr') \<Rightarrow> (Inl e, tr') | (Inr x, tr') \<Rightarrow> f x tr')"

text \<open>\<^verbatim>\<open>try: m  except BaseException as e: h(e)  else: k\<close>\<close>

definition try_except_else :: "'a io \<Rightarrow> (exn \<Rightarrow> 'b io) \<Rightarrow> ('a \<Rightarrow> 'b io) \<Rightarrow> 'b io" where
  "try_except_else m h k tr = (case m tr of (Inl e, tr') \<Rightarrow> h e tr' | (Inr x, tr') \<Rightarrow> k x tr')"

definition ext :: "(trace \<Rightarrow> extcall \<Rightarrow> exn + 'a) \<Rightarrow> extcall \<Rightarrow> 'a io" where
  "ext oracle c tr = (oracle tr c, tr @ [Call c])"

definition print :: "printed \<Rightarrow> unit io" where
  "print l tr = (Inr (), tr @ [Print l])"

text \<open>
  \<^verbatim>\<open>with cm: body\<close>. Creating and entering the manager is a call that may raise; the manager
  is left when the body ends, also by an exception or by \<^verbatim>\<open>continue\<close>, and leaving neither
  raises nor swallows an exception.
\<close>

definition py_with :: "env \<Rightarrow> extcall \<Rightarrow> 'a io \<Rightarrow> 'a io" where
  "py_with E cm body =
     io_bind (ext (returns_none E) cm)
       (\<lambda>_ tr. case body tr of (r, tr') \<Rightarrow> (r, tr' @ [Exit cm]))"

text \<open>\<^verbatim>\<open>with dummy_context_mgr(): body\<close>: the manager of lines 37-39 yields and does nothing else.\<close>

definition dummy_context_mgr :: "'a io \<Rightarrow> 'a io" where
  "dummy_context_mgr body = body"

text \<open>\<^verbatim>\<open>for x in xs: body(x)\<close>; an exception leaving the body ends the loop.\<close>

fun for_each :: "'a list \<Rightarrow> ('a \<Rightarrow> unit io) \<Rightarrow> unit io" where
  "for_each [] body = io_return ()"
| "for_each (x # xs) body = io_bind (body x) (\<lambda>_. for_each xs body)"

text \<open>\<^verbatim>\<open>for _ in range(n): m\<close>\<close>

fun repeat :: "nat \<Rightarrow> unit io \<Rightarrow> unit io" where
  "repeat 0 m = io_return ()"
| "repeat (Suc n) m = io_bind m (\<lambda>_. repeat n m)"

section \<open>Strings of integers\<close>

fun str_nat :: "nat \<Rightarrow> string" where
  "str_nat n =
     (if n < 10 then [''0123456789'' ! n]
      else str_nat (n div 10) @ [''0123456789'' ! (n mod 10)])"

declare str_nat.simps [simp del]

definition str_int :: "int \<Rightarrow> string" where
  "str_int i = (if i < 0 then ''-'' @ str_nat (nat (- i)) else str_nat (nat i))"

section \<open>The collaborators whose result the driver builds on\<close>

text \<open>\<^verbatim>\<open>tvm.placeholder(shape, dtype=dtype)\<close>: a tensor of that shape and dtype.\<close>

definition tvm_placeholder :: "env \<Rightarrow> shape \<Rightarrow> string \<Rightarrow> tensor io" where
  "tvm_placeholder E sh dt =
     io_bind (ext (returns_none E) (Tvm_placeholder sh dt))
       (\<lambda>_. io_return \<lparr>t_shape = sh, t_dtype = dt\<rparr>)"

text \<open>Number of \<^verbatim>\<open>np.random.random\<close> calls made so far.\<close>

fun is_draw :: "event \<Rightarrow> bool" where
  "is_draw (Call (Np_random_random sz)) = True"
| "is_draw _ = False"

definition draws :: "trace \<Rightarrow> nat" where
  "draws tr = length (filter is_draw tr)"

definition np_random_random :: "env \<Rightarrow> shape \<Rightarrow> nparray io" where
  "np_random_random E sz tr =
     io_bind (ext (returns_none E) (Np_random_random sz))
       (\<lambda>_. io_return (Random_random (draws tr) sz)) tr"

definition tvm_nd_array :: "env \<Rightarrow> nparray \<Rightarrow> handle \<Rightarrow> ndarray io" where
  "tvm_nd_array E a ctx =
     io_bind (ext (returns_none E) (Tvm_nd_array a ctx))
       (\<lambda>_. io_return (NDArray a ctx))"

text \<open>\<^verbatim>\<open>get_const_tuple(conv.shape)[i]\<close>\<close>

definition const_tuple_at :: "shape \<Rightarrow> nat \<Rightarrow> int io" where
  "const_tuple_at sh i =
     (if i < length sh then io_return (sh ! i)
      else io_raise (IndexError ''tuple index out of range''))"

section \<open>\<^verbatim>\<open>get_conv_ts\<close> (lines 109-155)\<close>

definition get_conv_ts ::
  "env \<Rightarrow> tensor \<Rightarrow> tensor \<Rightarrow> int \<Rightarrow> int \<Rightarrow> string \<Rightarrow> data_type \<Rightarrow> bool \<Rightarrow> (tensor \<times> handle) io"
where
  "get_conv_ts E input_holder filter_holder stride pad layout dtype depthwise =
     (let output_type = (if tvm_type dtype = ''int8'' then ''int32'' else tvm_type dtype) in
      if \<not> depthwise then
        io_bind (ext (returns_tensor E)
                   (Topi_nn_conv2d input_holder filter_holder [stride, stride] [pad, pad]
                      layout output_type))
          (\<lambda>conv.
            if layout = ''NCHW'' then
              io_bind (ext (returns_handle E) (Topi_generic_schedule ''schedule_conv2d_nchw'' [conv]))
                (\<lambda>ts. io_return (conv, ts))
            else if layout = ''NHWC'' then
              io_bind (ext (returns_handle E) (Topi_generic_schedule ''schedule_conv2d_nhwc'' [conv]))
                (\<lambda>ts. io_return (conv, ts))
            else if layout = ''HWCN'' then
              io_bind (ext (returns_handle E) (Topi_generic_schedule ''schedule_conv2d_hwcn'' [conv]))
                (\<lambda>ts. io_return (conv, ts))
            else io_raise (UnboundLocalError ''ts''))
      else
        if layout = ''NCHW'' then
          io_bind (ext (returns_tensor E)
                     (Topi_nn_depthwise_conv2d ''depthwise_conv2d_nchw'' input_holder filter_holder
                        [stride, stride] pad output_type))
            (\<lambda>conv.
              io_bind (ext (returns_handle E)
                         (Topi_generic_schedule ''schedule_depthwise_conv2d_nchw'' [conv]))
                (\<lambda>ts. io_return (conv, ts)))
        else if layout = ''NHWC'' then
          io_bind (ext (returns_tensor E)
                     (Topi_nn_depthwise_conv2d ''depthwise_conv2d_nhwc'' input_holder filter_holder
                        [stride, stride] pad output_type))
            (\<lambda>conv.
              io_bind (ext (returns_handle E)
                         (Topi_generic_schedule ''schedule_depthwise_conv2d_nhwc'' [conv]))
                (\<lambda>ts. io_return (conv, ts)))
        else if layout = ''HWCN'' then
          io_bind (ext (returns_tensor E)
                     (Topi_nn_depthwise_conv2d ''depthwise_conv2d_hwcn'' input_holder filter_holder
                        [stride, stride] pad output_type))
            (\<lambda>conv.
              io_bind (ext (returns_handle E)
                         (Topi_generic_schedule ''schedule_depthwise_conv2d_hwcn'' [conv]))
                (\<lambda>ts. io_return (conv, ts)))
        else io_raise (UnboundLocalError ''conv''))"

section \<open>\<^verbatim>\<open>build_and_run\<close> (lines 42-106)\<close>

text \<open>Lines 71-78: the module the kernel is called through, uploaded first when remote.\<close>

definition upload_code :: "env \<Rightarrow> handle option \<Rightarrow> handle \<Rightarrow> string \<Rightarrow> handle io" where
  "upload_code E remote f f_name =
     (case remote of
        Some session \<Rightarrow>
          (let so_name = f_name @ ''.so'' in
           io_bind (ext (returns_handle E) Util_tempdir) (\<lambda>temp.
           io_bind (ext (returns_handle E) (Tempdir_relpath temp so_name)) (\<lambda>path_so.
           io_bind (ext (returns_none E) (Export_library f path_so)) (\<lambda>_.
           io_bind (ext (returns_none E) (Remote_upload session path_so)) (\<lambda>_.
           ext (returns_handle E) (Remote_load_module session so_name))))))
      | None \<Rightarrow> io_return f)"

text \<open>Lines 80-86: the warmup runs, then the timed runs; the result is \<^verbatim>\<open>cost\<close>.\<close>

definition warmup_and_time ::
  "env \<Rightarrow> handle \<Rightarrow> ndarray \<Rightarrow> ndarray \<Rightarrow> ndarray \<Rightarrow> handle \<Rightarrow> int \<Rightarrow> int \<Rightarrow> real io"
where
  "warmup_and_time E f tvm_input tvm_filter tvm_output ctx warmup run =
     io_bind (repeat (nat warmup) (ext (returns_none E) (Invoke f tvm_input tvm_filter tvm_output)))
       (\<lambda>_.
     io_bind (ext (returns_handle E) (Time_evaluator f ctx run)) (\<lambda>timer.
     ext (returns_mean E) (Timer_call timer tvm_input tvm_filter tvm_output)))"

text \<open>Lines 71-86 together: everything between a successful compilation and the cost line.\<close>

definition upload_and_time ::
  "env \<Rightarrow> handle option \<Rightarrow> handle \<Rightarrow> string \<Rightarrow> ndarray \<Rightarrow> ndarray \<Rightarrow> ndarray \<Rightarrow> handle \<Rightarrow>
   int \<Rightarrow> int \<Rightarrow> real io"
where
  "upload_and_time E remote f f_name tvm_input tvm_filter tvm_output ctx warmup run =
     io_bind (upload_code E remote f f_name) (\<lambda>f.
     warmup_and_time E f tvm_input tvm_filter tvm_output ctx warmup run)"

text \<open>Lines 52-53: the name of the compiled function.\<close>

definition f_name_of :: "nat \<Rightarrow> string \<Rightarrow> int \<Rightarrow> int \<Rightarrow> int \<Rightarrow> int \<Rightarrow> string" where
  "f_name_of idx phase kernel' space input_channel output_channel =
     str_nat idx @ ''_'' @ phase @ ''_'' @ str_int kernel' @ ''_'' @ str_int space @ ''_'' @
     str_int input_channel @ ''_'' @ str_int output_channel"

definition build_and_run ::
  "env \<Rightarrow> string \<Rightarrow> nat \<Rightarrow> tensor \<Rightarrow> tensor \<Rightarrow> int \<Rightarrow> int \<Rightarrow> int \<Rightarrow> int \<Rightarrow> int \<Rightarrow> int \<Rightarrow> string \<Rightarrow>
   ndarray \<Rightarrow> ndarray \<Rightarrow> ndarray \<Rightarrow> handle \<Rightarrow> handle \<Rightarrow> tensor \<Rightarrow> string \<Rightarrow> string option \<Rightarrow>
   int \<Rightarrow> int \<Rightarrow> int \<Rightarrow> handle option \<Rightarrow> unit io"
where
  "build_and_run E phase idx input_holder filter_holder kernel' space input_channel output_channel
     stride pad layout tvm_input tvm_filter tvm_output ctx ts conv target target_host
     warmup run ops remote =
     py_with E Tvm_build_config
       (let f_name = f_name_of idx phase kernel' space input_channel output_channel in
        try_except_else
          (ext (returns_handle E)
             (Tvm_build ts [input_holder, filter_holder, conv] target target_host f_name))
          (\<lambda>e.
            io_bind (print (Exc e)) (\<lambda>_.
            print (Line ''{0}--target: {1}, dtype: {2}, layout: {3}, stride: {4}, pad: {5}, input_shape: {6}, filter_shape: {7} -> failed''
                     [S phase, S target, S (nd_dtype tvm_input), S layout, S (str_int stride),
                      S (str_int pad), Sh (t_shape input_holder), Sh (t_shape filter_holder)])))
          (\<lambda>f.
            io_bind (upload_and_time E remote f f_name tvm_input tvm_filter tvm_output ctx
                       warmup run) (\<lambda>cost.
            io_bind (print (Line ''{0}--target: {1}, dtype: {2}, layout: {3}, stride: {4}, pad: {5}, input_shape: {6}, filter_shape: {7}, ops: {8} -> {9}''
                              [S phase, S target, S (nd_dtype tvm_input), S layout,
                               S (str_int stride), S (str_int pad), Sh (t_shape input_holder),
                               Sh (t_shape filter_holder), S (str_int ops), Fl cost])) (\<lambda>_.
            ext (returns_none E)
              (Test_correctness input_channel output_channel kernel' stride pad
                 tvm_input tvm_filter tvm_output (nd_dtype tvm_input) layout
                 (if phase = ''depthwise'' then True else False))))))"

section \<open>\<^verbatim>\<open>bench_tvm\<close> (lines 158-251)\<close>

text \<open>
  Lines 171-189 of the loop body: the shapes, the two placeholders, the two unused
  variables and the two random arrays of one workload.
\<close>

definition prepare ::
  "env \<Rightarrow> string \<Rightarrow> data_type \<Rightarrow> workload \<Rightarrow> (tensor \<times> tensor \<times> nparray \<times> nparray) io"
where
  "prepare E layout dtype workload =
     io_bind (ext (returns_shapes E)
                (Get_input_and_filter_shape layout (wl_space workload) (wl_input_channel workload)
                   (wl_output_channel workload) (wl_kernel workload) (wl_depthwise workload)))
       (\<lambda>(input_shape, filter_shape).
     io_bind (tvm_placeholder E input_shape (tvm_type dtype)) (\<lambda>input_holder.
     io_bind (tvm_placeholder E filter_shape (tvm_type dtype)) (\<lambda>filter_holder.
     io_bind (ext (returns_none E) (Tvm_var ''s'')) (\<lambda>stride_holder.
     io_bind (ext (returns_none E) (Tvm_var ''p'')) (\<lambda>padding_holder.
     io_bind (np_random_random E input_shape) (\<lambda>input_data.
     io_bind (np_random_random E filter_shape) (\<lambda>filter_data.
     io_return (input_holder, filter_holder, input_data, filter_data))))))))"

text \<open>Lines 209-230: the three device buffers and the operation count.\<close>

definition allocate ::
  "env \<Rightarrow> string \<Rightarrow> data_type \<Rightarrow> handle \<Rightarrow> workload \<Rightarrow> nparray \<Rightarrow> nparray \<Rightarrow> tensor \<Rightarrow>
   (ndarray \<times> ndarray \<times> ndarray \<times> int) io"
where
  "allocate E layout dtype ctx workload input_data filter_data conv =
     io_bind (tvm_nd_array E (Astype input_data (np_type dtype)) ctx) (\<lambda>tvm_input.
     io_bind (tvm_nd_array E (Astype filter_data (np_type dtype)) ctx) (\<lambda>tvm_filter.
     io_bind (tvm_nd_array E (Zeros (t_shape conv) (t_dtype conv)) ctx) (\<lambda>tvm_output.
     io_bind (if layout = ''NCHW'' then const_tuple_at (t_shape conv) 2
              else if layout = ''NHWC'' then const_tuple_at (t_shape conv) 1
              else if layout = ''HWCN'' then const_tuple_at (t_shape conv) 0
              else io_raise (UnboundLocalError ''output_space'')) (\<lambda>output_space.
     io_bind (ext (returns_int E)
                (Get_num_ops output_space (wl_input_channel workload)
                   (wl_output_channel workload) (wl_kernel workload) (wl_depthwise workload)))
       (\<lambda>ops.
     io_return (tvm_input, tvm_filter, tvm_output, ops))))))"

text \<open>Lines 209-241: the block guarded by the inner \<^verbatim>\<open>try\<close>.\<close>

definition allocate_and_run ::
  "env \<Rightarrow> string \<Rightarrow> data_type \<Rightarrow> handle option \<Rightarrow> string \<Rightarrow> string option \<Rightarrow> handle \<Rightarrow>
   nat \<Rightarrow> workload \<Rightarrow> tensor \<Rightarrow> tensor \<Rightarrow> nparray \<Rightarrow> nparray \<Rightarrow> tensor \<Rightarrow> handle \<Rightarrow> unit io"
where
  "allocate_and_run E layout dtype remote target target_host ctx idx workload
     input_holder filter_holder input_data filter_data conv ts =
     (let phase = (if wl_depthwise workload then ''depthwise'' else ''standard'') in
      io_bind (allocate E layout dtype ctx workload input_data filter_data conv)
        (\<lambda>(tvm_input, tvm_filter, tvm_output, ops).
      build_and_run E phase idx input_holder filter_holder (wl_kernel workload)
        (wl_space workload) (wl_input_channel workload) (wl_output_channel workload)
        (wl_stride workload) (wl_pad workload) layout tvm_input tvm_filter tvm_output
        ctx ts conv target target_host (wl_warmup workload) (wl_run workload) ops remote))"

text \<open>Lines 195-251: the \<^verbatim>\<open>try\<close> statement inside the two \<^verbatim>\<open>with\<close> blocks.\<close>

definition schedule_and_run ::
  "env \<Rightarrow> string \<Rightarrow> data_type \<Rightarrow> handle option \<Rightarrow> string \<Rightarrow> string option \<Rightarrow> handle \<Rightarrow>
   nat \<Rightarrow> workload \<Rightarrow> tensor \<Rightarrow> tensor \<Rightarrow> nparray \<Rightarrow> nparray \<Rightarrow> unit io"
where
  "schedule_and_run E layout dtype remote target target_host ctx idx workload
     input_holder filter_holder input_data filter_data =
     (let phase = (if wl_depthwise workload then ''depthwise'' else ''standard'') in
      try_except_else
        (get_conv_ts E input_holder filter_holder (wl_stride workload) (wl_pad workload)
           layout dtype (wl_depthwise workload))
        (\<lambda>e.
          io_bind (print (Exc e)) (\<lambda>_.
          print (Line ''standard--target: {0}, dtype: {1}, layout: {2}, input_shape: {3}, filter_shape: {4} -> schedule skip''
                   [S target, S (t_dtype input_holder), S layout, Sh (t_shape input_holder),
                    Sh (t_shape filter_holder)])))
        (\<lambda>(conv, ts).
          try_except_else
            (allocate_and_run E layout dtype remote target target_host ctx idx workload
               input_holder filter_holder input_data filter_data conv ts)
            (\<lambda>e.
              io_bind (print (Exc e)) (\<lambda>_.
              print (Line ''{0}--target: {1}, dtype: {2}, layout: {3}, input_shape: {4}, filter_shape: {5} -> run skip''
                       [S phase, S target, S (t_dtype input_holder), S layout,
                        Sh (t_shape input_holder), Sh (t_shape filter_holder)])))
            (\<lambda>_. io_return ())))"

text \<open>
  Lines 171-251: one iteration of the loop over \<^verbatim>\<open>enumerate(workloads)\<close>. The module globals
  \<^verbatim>\<open>key\<close> and \<^verbatim>\<open>log_file\<close> that the body reads are parameters.
\<close>

definition workload_body ::
  "env \<Rightarrow> string \<Rightarrow> string \<Rightarrow> string \<Rightarrow> data_type \<Rightarrow> handle option \<Rightarrow> string \<Rightarrow> string \<Rightarrow>
   string option \<Rightarrow> handle \<Rightarrow> nat \<times> workload \<Rightarrow> unit io"
where
  "workload_body E key log_file layout dtype remote schedule target target_host ctx =
     (\<lambda>(idx, workload).
       io_bind (prepare E layout dtype workload)
         (\<lambda>(input_holder, filter_holder, input_data, filter_data).
           let log_name = ''../configs/'' @ key @ ''.'' @ log_file in
           (if schedule = ''manual'' then py_with E (Autotvm_apply_history_best log_name)
            else dummy_context_mgr)
             (py_with E (Tvm_target_create target)
                (schedule_and_run E layout dtype remote target target_host ctx idx workload
                   input_holder filter_holder input_data filter_data))))"

definition bench_tvm ::
  "env \<Rightarrow> string \<Rightarrow> string \<Rightarrow> string \<Rightarrow> string \<Rightarrow> data_type \<Rightarrow> string \<Rightarrow> workload list \<Rightarrow>
   handle option \<Rightarrow> string \<Rightarrow> unit io"
where
  "bench_tvm E key log_file arch tgt dtype layout workloads remote schedule =
     io_bind (ext (returns_arch E) (Config_arch tgt arch schedule remote))
       (\<lambda>(target, target_host, ctx).
         case target of
           None \<Rightarrow> io_return ()
         | Some target \<Rightarrow>
             for_each (enumerate 0 workloads)
               (workload_body E key log_file layout dtype remote schedule target target_host ctx))"

section \<open>The module body and the \<^verbatim>\<open>__main__\<close> block (lines 30-34 and 254-295)\<close>

definition os_environ :: "(string \<rightharpoonup> string) \<Rightarrow> string \<Rightarrow> string io" where
  "os_environ environ k =
     (case environ k of None \<Rightarrow> io_raise (KeyError k) | Some v \<Rightarrow> io_return v)"

definition sys_argv :: "string list \<Rightarrow> nat \<Rightarrow> string io" where
  "sys_argv argv i =
     (if i < length argv then io_return (argv ! i)
      else io_raise (IndexError ''list index out of range''))"

text \<open>Lines 280-295: the default sweep.\<close>

definition sweep :: "env \<Rightarrow> string \<Rightarrow> string \<Rightarrow> string \<Rightarrow> handle option \<Rightarrow> unit io" where
  "sweep E key log_file arch remote =
     for_each [''cpu''] (\<lambda>target.
     for_each [''int8'', ''float''] (\<lambda>dtype.
     for_each [''NCHW'', ''NHWC'', ''HWCN''] (\<lambda>layout.
     for_each [''caffe2_depthwise'', ''caffe2_standard'', ''mobilenet''] (\<lambda>workloads.
     for_each [''auto'', ''manual''] (\<lambda>schedule.
       io_bind (ext (returns_data_type E) (Get_data_type dtype)) (\<lambda>dt.
       io_bind (ext (returns_workloads E) (Get_workloads workloads)) (\<lambda>wls.
       bench_tvm E key log_file arch target dt layout wls remote schedule)))))))"

definition main :: "env \<Rightarrow> (string \<rightharpoonup> string) \<Rightarrow> string list \<Rightarrow> unit io" where
  "main E environ argv =
     io_bind (os_environ environ ''TVM_TRACKER_HOST'') (\<lambda>tracker_host.
     io_bind (io_bind (os_environ environ ''TVM_TRACKER_PORT'')
                (\<lambda>port. ext (returns_int E) (Builtin_int port))) (\<lambda>tracker_port.
     let key = ''android''; log_file = ''convolutions.log'' in
     io_bind (sys_argv argv 1) (\<lambda>arch.
     io_bind (sys_argv argv 2) (\<lambda>mode.
     io_bind (if mode = ''remote'' then
                io_bind (sys_argv argv 3) (\<lambda>key.
                io_bind (ext (returns_handle E) (Rpc_connect_tracker tracker_host tracker_port))
                  (\<lambda>tracker.
                io_bind (ext (returns_handle E) (Tracker_request tracker key)) (\<lambda>remote.
                io_return (key, Some remote))))
              else io_return (key, None)) (\<lambda>(key, remote).
     if length argv > 4 then
       io_bind (sys_argv argv 4) (\<lambda>target.
       io_bind (io_bind (sys_argv argv 5) (\<lambda>a. ext (returns_data_type E) (Get_data_type a)))
         (\<lambda>dtype.
       io_bind (sys_argv argv 6) (\<lambda>layout.
       io_bind (io_bind (sys_argv argv 7) (\<lambda>a. ext (returns_workloads E) (Get_workloads a)))
         (\<lambda>workloads.
       io_bind (sys_argv argv 8) (\<lambda>schedule.
       bench_tvm E key log_file arch target dtype layout workloads remote schedule)))))
     else sweep E key log_file arch remote)))))"

section \<open>Vocabulary for the properties\<close>

text \<open>
  The two \<^verbatim>\<open>with\<close> statements of lines 193-194, split into what happens on the way in and
  what is recorded on the way out. The history manager is only created when \<^verbatim>\<open>schedule\<close> is
  \<^verbatim>\<open>"manual"\<close>.
\<close>

definition enter_contexts :: "env \<Rightarrow> string \<Rightarrow> string \<Rightarrow> string \<Rightarrow> string \<Rightarrow> unit io" where
  "enter_contexts E key log_file schedule target =
     io_bind (if schedule = ''manual''
              then ext (returns_none E)
                     (Autotvm_apply_history_best (''../configs/'' @ key @ ''.'' @ log_file))
              else io_return ())
       (\<lambda>_. ext (returns_none E) (Tvm_target_create target))"

definition leave_contexts :: "string \<Rightarrow> string \<Rightarrow> string \<Rightarrow> string \<Rightarrow> trace" where
  "leave_contexts key log_file schedule target =
     Exit (Tvm_target_create target) #
     (if schedule = ''manual''
      then [Exit (Autotvm_apply_history_best (''../configs/'' @ key @ ''.'' @ log_file))]
      else [])"

text \<open>Lines 171-194: everything one workload does before \<^verbatim>\<open>get_conv_ts\<close> is called.\<close>

definition before_schedule ::
  "env \<Rightarrow> string \<Rightarrow> string \<Rightarrow> string \<Rightarrow> data_type \<Rightarrow> string \<Rightarrow> string \<Rightarrow> workload \<Rightarrow>
   (tensor \<times> tensor \<times> nparray \<times> nparray) io"
where
  "before_schedule E key log_file layout dtype schedule target workload =
     io_bind (prepare E layout dtype workload) (\<lambda>p.
     io_bind (enter_contexts E key log_file schedule target) (\<lambda>_. io_return p))"

text \<open>The output dtype an operator construction call asks for.\<close>

fun requested_out_dtype :: "event \<Rightarrow> string option" where
  "requested_out_dtype (Call (Topi_nn_conv2d i f s p l od)) = Some od"
| "requested_out_dtype (Call (Topi_nn_depthwise_conv2d n i f s p od)) = Some od"
| "requested_out_dtype _ = None"

text \<open>An operator construction call: the first thing a build attempt does.\<close>

definition is_construct :: "event \<Rightarrow> bool" where
  "is_construct ev = (requested_out_dtype ev \<noteq> None)"

text \<open>The results of a workload: the line carrying the measured cost, and the correctness check.\<close>

fun is_cost :: "fmt_arg \<Rightarrow> bool" where
  "is_cost (Fl c) = True"
| "is_cost _ = False"

fun is_check :: "event \<Rightarrow> bool" where
  "is_check (Call (Test_correctness ic oc k s p i f out dt l dw)) = True"
| "is_check _ = False"

fun is_cost_line :: "event \<Rightarrow> bool" where
  "is_cost_line (Print (Line fmt args)) = list_ex is_cost args"
| "is_cost_line _ = False"

definition is_result :: "event \<Rightarrow> bool" where
  "is_result ev = (is_cost_line ev \<or> is_check ev)"

text \<open>A collaborator that answers every call with success.\<close>

definition E_ok :: env where
  "E_ok = \<lparr>
     returns_none = (\<lambda>tr c. Inr ()),
     returns_handle = (\<lambda>tr c. Inr ''handle''),
     returns_int = (\<lambda>tr c. Inr 9090),
     returns_mean = (\<lambda>tr c. Inr (1 / 8)),
     returns_tensor = (\<lambda>tr c. Inr \<lparr>t_shape = [1, 64, 56, 56],
                                     t_dtype = (case requested_out_dtype (Call c) of
                                                  Some od \<Rightarrow> od | None \<Rightarrow> '''')\<rparr>),
     returns_shapes = (\<lambda>tr c. Inr ([1, 32, 56, 56], [64, 32, 3, 3])),
     returns_arch = (\<lambda>tr c. Inr (Some ''llvm'', None, ''cpu(0)'')),
     returns_data_type = (\<lambda>tr c. Inr \<lparr>tvm_type = ''int8'', np_type = ''int8''\<rparr>),
     returns_workloads = (\<lambda>tr c. Inr [])\<rparr>"

text \<open>A computation is silent for a kind of event when it never adds one to the trace.\<close>

definition silent :: "(event \<Rightarrow> bool) \<Rightarrow> 'a io \<Rightarrow> bool" where
  "silent P m \<longleftrightarrow> (\<forall>tr. filter P (snd (m tr)) = filter P tr)"

named_theorems silent_intros "composition rules for silent computations"

text \<open>A dense workload and a data type, for concrete runs.\<close>

definition w_std :: workload where
  "w_std = \<lparr>wl_space = 56, wl_input_channel = 32, wl_output_channel = 64, wl_kernel = 3,
            wl_pad = 1, wl_stride = 1, wl_warmup = 1, wl_run = 2, wl_depthwise = False\<rparr>"

definition dt_f32 :: data_type where
  "dt_f32 = \<lparr>tvm_type = ''float32'', np_type = ''float32''\<rparr>"


text \<open>Lines 51-61: entering \<^verbatim>\<open>tvm.build_config()\<close> and compiling; the result is the module.\<close>

definition compile ::
  "env \<Rightarrow> handle \<Rightarrow> tensor \<Rightarrow> tensor \<Rightarrow> tensor \<Rightarrow> string \<Rightarrow> string option \<Rightarrow> string \<Rightarrow> handle io"
where
  "compile E ts input_holder filter_holder conv target target_host f_name =
     io_bind (ext (returns_none E) Tvm_build_config) (\<lambda>_.
     ext (returns_handle E)
       (Tvm_build ts [input_holder, filter_holder, conv] target target_host f_name))"


text \<open>The buffers a kernel invocation, warmup or timed, is given.\<close>

fun kernel_buffers :: "event \<Rightarrow> (ndarray \<times> ndarray \<times> ndarray) option" where
  "kernel_buffers (Call (Invoke f i w out)) = Some (i, w, out)"
| "kernel_buffers (Call (Timer_call t i w out)) = Some (i, w, out)"
| "kernel_buffers _ = None"

text \<open>The host array a device buffer allocation is filled from.\<close>

fun allocated_from :: "event \<Rightarrow> nparray option" where
  "allocated_from (Call (Tvm_nd_array a ctx)) = Some a"
| "allocated_from _ = None"


text \<open>Collaborators that fail at one point: the time evaluator, the compiler, the operator.\<close>

definition E_timer_fails :: env where
  "E_timer_fails = E_ok\<lparr>returns_handle := (\<lambda>tr c. case c of
       Time_evaluator f ctx n \<Rightarrow> Inl (Raised ''time_evaluator failed'')
     | _ \<Rightarrow> Inr ''handle'')\<rparr>"

definition E_build_fails :: env where
  "E_build_fails = E_ok\<lparr>returns_handle := (\<lambda>tr c. case c of
       Tvm_build ts hs t th n \<Rightarrow> Inl (Raised ''build failed'')
     | _ \<Rightarrow> Inr ''handle'')\<rparr>"


text \<open>A depthwise workload.\<close>

definition w_dw :: workload where
  "w_dw = \<lparr>wl_space = 56, wl_input_channel = 32, wl_output_channel = 32, wl_kernel = 3,
           wl_pad = 1, wl_stride = 2, wl_warmup = 1, wl_run = 2, wl_depthwise = True\<rparr>"

definition dt_i8 :: data_type where
  "dt_i8 = \<lparr>tvm_type = ''int8'', np_type = ''int8''\<rparr>"





text \<open>A compilation call.\<close>

fun is_build :: "event \<Rightarrow> bool" where
  "is_build (Call (Tvm_build ts args target target_host name)) = True"
| "is_build _ = False"


text \<open>A connection to the RPC tracker.\<close>

fun is_connect :: "event \<Rightarrow> bool" where
  "is_connect (Call (Rpc_connect_tracker host port)) = True"
| "is_connect _ = False"

text \<open>Lines 264-295: what the \<^verbatim>\<open>__main__\<close> block does once \<^verbatim>\<open>remote\<close> is set.\<close>

definition run_benchmarks ::
  "env \<Rightarrow> string list \<Rightarrow> string \<Rightarrow> string \<Rightarrow> string \<Rightarrow> handle option \<Rightarrow> unit io"
where
  "run_benchmarks E argv log_file arch key remote =
     (if length argv > 4 then
        io_bind (sys_argv argv 4) (\<lambda>target.
        io_bind (io_bind (sys_argv argv 5) (\<lambda>a. ext (returns_data_type E) (Get_data_type a)))
          (\<lambda>dtype.
        io_bind (sys_argv argv 6) (\<lambda>layout.
        io_bind (io_bind (sys_argv argv 7) (\<lambda>a. ext (returns_workloads E) (Get_workloads a)))
          (\<lambda>workloads.
        io_bind (sys_argv argv 8) (\<lambda>schedule.
        bench_tvm E key log_file arch target dtype layout workloads remote schedule)))))
      else sweep E key log_file arch remote)"



section \<open>Stepping through the control flow\<close>

lemma io_bind_Inr: "m tr = (Inr x, tr') \<Longrightarrow> io_bind m f tr = f x tr'"
  by (simp add: io_bind_def)

lemma io_bind_Inl: "m tr = (Inl e, tr') \<Longrightarrow> io_bind m f tr = (Inl e, tr')"
  by (simp add: io_bind_def)

lemma try_Inr: "m tr = (Inr x, tr') \<Longrightarrow> try_except_else m h k tr = k x tr'"
  by (simp add: try_except_else_def)

lemma try_Inl: "m tr = (Inl e, tr') \<Longrightarrow> try_except_else m h k tr = h e tr'"
  by (simp add: try_except_else_def)

lemma print2:
  "io_bind (print a) (\<lambda>_. print b) tr = (Inr (), tr @ [Print a, Print b])"
  by (simp add: io_bind_def print_def)

lemma map_filter_append:
  "List.map_filter f (xs @ ys) = List.map_filter f xs @ List.map_filter f ys"
  by (simp add: List.map_filter_def)

lemma workload_body_reached:
  assumes "before_schedule E key log_file layout dtype schedule target workload tr
           = (Inr (input_holder, filter_holder, input_data, filter_data), tr1)"
  shows "workload_body E key log_file layout dtype remote schedule target target_host ctx
           (idx, workload) tr
         = (case schedule_and_run E layout dtype remote target target_host ctx idx workload
                  input_holder filter_holder input_data filter_data tr1 of
              (r, tr2) \<Rightarrow> (r, tr2 @ leave_contexts key log_file schedule target))"
  using assms
  by (auto simp: before_schedule_def workload_body_def enter_contexts_def leave_contexts_def
      py_with_def dummy_context_mgr_def io_bind_def ext_def io_return_def Let_def
      split: prod.splits sum.splits if_splits)

lemma schedule_and_run_schedule_failure:
  assumes "get_conv_ts E input_holder filter_holder (wl_stride workload) (wl_pad workload)
             layout dtype (wl_depthwise workload) tr = (Inl e, tr')"
  shows "schedule_and_run E layout dtype remote target target_host ctx idx workload
           input_holder filter_holder input_data filter_data tr
         = (Inr (), tr' @
             [Print (Exc e),
              Print (Line ''standard--target: {0}, dtype: {1}, layout: {2}, input_shape: {3}, filter_shape: {4} -> schedule skip''
                [S target, S (t_dtype input_holder), S layout, Sh (t_shape input_holder),
                 Sh (t_shape filter_holder)])])"
  using assms by (simp add: schedule_and_run_def Let_def try_Inl print2)

lemma schedule_and_run_run_failure:
  assumes "get_conv_ts E input_holder filter_holder (wl_stride workload) (wl_pad workload)
             layout dtype (wl_depthwise workload) tr = (Inr (conv, ts), tr')"
    and "allocate_and_run E layout dtype remote target target_host ctx idx workload
           input_holder filter_holder input_data filter_data conv ts tr' = (Inl e, tr'')"
  shows "schedule_and_run E layout dtype remote target target_host ctx idx workload
           input_holder filter_holder input_data filter_data tr
         = (Inr (), tr'' @
             [Print (Exc e),
              Print (Line ''{0}--target: {1}, dtype: {2}, layout: {3}, input_shape: {4}, filter_shape: {5} -> run skip''
                [S (if wl_depthwise workload then ''depthwise'' else ''standard''), S target,
                 S (t_dtype input_holder), S layout, Sh (t_shape input_holder),
                 Sh (t_shape filter_holder)])])"
  using assms by (simp add: schedule_and_run_def Let_def try_Inl try_Inr print2)

lemma schedule_and_run_done:
  assumes "get_conv_ts E input_holder filter_holder (wl_stride workload) (wl_pad workload)
             layout dtype (wl_depthwise workload) tr = (Inr (conv, ts), tr')"
    and "allocate_and_run E layout dtype remote target target_host ctx idx workload
           input_holder filter_holder input_data filter_data conv ts tr' = (Inr u, tr'')"
  shows "schedule_and_run E layout dtype remote target target_host ctx idx workload
           input_holder filter_holder input_data filter_data tr = (Inr (), tr'')"
  using assms by (simp add: schedule_and_run_def Let_def try_Inr io_return_def)

section \<open>Events a computation cannot add\<close>

lemma silentD: "silent P m \<Longrightarrow> filter P (snd (m tr)) = filter P tr"
  by (simp add: silent_def)

lemma silentD2: "silent P m \<Longrightarrow> m tr = (r, tr') \<Longrightarrow> filter P tr' = filter P tr"
  by (metis silentD snd_conv)

lemma silent_return [silent_intros]: "silent P (io_return x)"
  by (simp add: silent_def io_return_def)

lemma silent_raise [silent_intros]: "silent P (io_raise e)"
  by (simp add: silent_def io_raise_def)

lemma silent_ext [silent_intros]: "\<not> P (Call c) \<Longrightarrow> silent P (ext oracle c)"
  by (simp add: silent_def ext_def)

lemma silent_print [silent_intros]: "\<not> P (Print l) \<Longrightarrow> silent P (print l)"
  by (simp add: silent_def print_def)

lemma silent_bind [silent_intros]:
  assumes "silent P m" and "\<And>x. silent P (f x)"
  shows "silent P (io_bind m f)"
  unfolding silent_def
proof
  fix tr
  show "filter P (snd (io_bind m f tr)) = filter P tr"
  proof (cases "m tr")
    case (Pair r tr')
    then have "filter P tr' = filter P tr" using assms(1) by (rule silentD2 [rotated])
    with Pair assms(2) show ?thesis
      by (cases r) (auto simp: io_bind_def silent_def)
  qed
qed

lemma silent_try [silent_intros]:
  assumes "silent P m" and "\<And>e. silent P (h e)" and "\<And>x. silent P (k x)"
  shows "silent P (try_except_else m h k)"
  unfolding silent_def
proof
  fix tr
  show "filter P (snd (try_except_else m h k tr)) = filter P tr"
  proof (cases "m tr")
    case (Pair r tr')
    then have "filter P tr' = filter P tr" using assms(1) by (rule silentD2 [rotated])
    with Pair assms(2,3) show ?thesis
      by (cases r) (auto simp: try_except_else_def silent_def)
  qed
qed

lemma silent_with [silent_intros]:
  assumes "\<not> P (Call cm)" and "\<not> P (Exit cm)" and "silent P body"
  shows "silent P (py_with E cm body)"
  unfolding py_with_def
proof (rule silent_bind)
  show "silent P (ext (returns_none E) cm)" using assms(1) by (rule silent_ext)
next
  fix x :: unit
  show "silent P (\<lambda>tr. case body tr of (r, tr') \<Rightarrow> (r, tr' @ [Exit cm]))"
    using assms(2,3) by (auto simp: silent_def split: prod.splits dest: silentD2 [OF assms(3)])
qed

lemma silent_dummy [silent_intros]: "silent P body \<Longrightarrow> silent P (dummy_context_mgr body)"
  by (simp add: dummy_context_mgr_def)

lemma silent_if [silent_intros]:
  "(c \<Longrightarrow> silent P a) \<Longrightarrow> (\<not> c \<Longrightarrow> silent P b) \<Longrightarrow> silent P (if c then a else b)"
  by simp

lemma silent_case_prod [silent_intros]:
  "(\<And>a b. silent P (f a b)) \<Longrightarrow> silent P (case p of (a, b) \<Rightarrow> f a b)"
  by (cases p) simp

lemma silent_case_option [silent_intros]:
  "silent P a \<Longrightarrow> (\<And>x. silent P (f x)) \<Longrightarrow> silent P (case opt of None \<Rightarrow> a | Some x \<Rightarrow> f x)"
  by (cases opt) simp_all

lemma silent_for_each [silent_intros]:
  "(\<And>x. silent P (body x)) \<Longrightarrow> silent P (for_each xs body)"
  by (induction xs) (auto intro!: silent_intros)

lemma silent_repeat [silent_intros]: "silent P m \<Longrightarrow> silent P (repeat n m)"
  by (induction n) (auto intro!: silent_intros)

lemma silent_placeholder [silent_intros]:
  "\<not> P (Call (Tvm_placeholder sh dt)) \<Longrightarrow> silent P (tvm_placeholder E sh dt)"
  unfolding tvm_placeholder_def by (intro silent_intros)

lemma silent_nd_array [silent_intros]:
  "\<not> P (Call (Tvm_nd_array a ctx)) \<Longrightarrow> silent P (tvm_nd_array E a ctx)"
  unfolding tvm_nd_array_def by (intro silent_intros)

lemma silent_random [silent_intros]:
  "\<not> P (Call (Np_random_random sz)) \<Longrightarrow> silent P (np_random_random E sz)"
  by (auto simp: silent_def np_random_random_def io_bind_def ext_def io_return_def
      split: sum.splits)

lemma silent_const_tuple_at [silent_intros]: "silent P (const_tuple_at sh i)"
  unfolding const_tuple_at_def by (intro silent_intros)


lemma not_result_simps [simp]:
  "\<not> is_result (Call (Get_input_and_filter_shape l a b c d e))"
  "\<not> is_result (Call (Tvm_placeholder sh t))"
  "\<not> is_result (Call (Tvm_var v))"
  "\<not> is_result (Call (Np_random_random sh))"
  "\<not> is_result (Call (Autotvm_apply_history_best n))"
  "\<not> is_result (Call (Tvm_target_create n))"
  "\<not> is_result (Call (Topi_nn_conv2d i f s p la od))"
  "\<not> is_result (Call (Topi_nn_depthwise_conv2d n i f s pd od))"
  "\<not> is_result (Call (Topi_generic_schedule n ts))"
  "\<not> is_result (Exit cm)"
  "\<not> is_result (Print (Exc ex))"
  by (simp_all add: is_result_def)

lemma silent_result_before_schedule:
  "silent is_result (before_schedule E key log_file layout dtype schedule target workload)"
  unfolding before_schedule_def prepare_def enter_contexts_def
  by (intro silent_intros) simp_all

lemma silent_result_get_conv_ts:
  "silent is_result (get_conv_ts E input_holder filter_holder stride pad layout dtype depthwise)"
  unfolding get_conv_ts_def Let_def
  by (intro silent_intros) simp_all

lemma get_conv_ts_unsupported:
  assumes "layout \<notin> {''NCHW'', ''NHWC'', ''HWCN''}"
  shows "\<exists>e. fst (get_conv_ts E input_holder filter_holder stride pad layout dtype depthwise tr)
              = Inl e"
  using assms
  by (auto simp: get_conv_ts_def Let_def io_bind_def ext_def io_raise_def split: sum.splits)

text \<open>Unfolding a concrete run.\<close>

lemmas run_simps = io_bind_def io_return_def io_raise_def ext_def print_def try_except_else_def
  py_with_def dummy_context_mgr_def tvm_placeholder_def np_random_random_def tvm_nd_array_def
  const_tuple_at_def draws_def Let_def

lemma before_schedule_std:
  "before_schedule E_ok ''android'' ''convolutions.log'' ''NCWH'' dt_f32 ''auto'' ''llvm'' w_std []
   = (Inr (\<lparr>t_shape = [1, 32, 56, 56], t_dtype = ''float32''\<rparr>,
           \<lparr>t_shape = [64, 32, 3, 3], t_dtype = ''float32''\<rparr>,
           Random_random 0 [1, 32, 56, 56], Random_random 1 [64, 32, 3, 3]),
      [Call (Get_input_and_filter_shape ''NCWH'' 56 32 64 3 False),
       Call (Tvm_placeholder [1, 32, 56, 56] ''float32''),
       Call (Tvm_placeholder [64, 32, 3, 3] ''float32''), Call (Tvm_var ''s''),
       Call (Tvm_var ''p''), Call (Np_random_random [1, 32, 56, 56]),
       Call (Np_random_random [64, 32, 3, 3]),
       Call (Tvm_target_create ''llvm'')])"
  by (simp add: before_schedule_def prepare_def enter_contexts_def E_ok_def w_std_def dt_f32_def
      run_simps)

section \<open>Compiling and running one workload\<close>

lemma py_with_entered:
  "returns_none E tr cm = Inr () \<Longrightarrow>
   py_with E cm body tr = (case body (tr @ [Call cm]) of (r, tr') \<Rightarrow> (r, tr' @ [Exit cm]))"
  by (simp add: py_with_def io_bind_def ext_def)

lemma compile_cases:
  "compile E ts ih fh conv target target_host f_name tr = (Inr f, tr1) \<Longrightarrow>
   returns_none E tr Tvm_build_config = Inr () \<and>
   returns_handle E (tr @ [Call Tvm_build_config])
     (Tvm_build ts [ih, fh, conv] target target_host f_name) = Inr f \<and>
   tr1 = tr @ [Call Tvm_build_config, Call (Tvm_build ts [ih, fh, conv] target target_host f_name)]"
  by (auto simp: compile_def io_bind_def ext_def split: sum.splits)

lemma build_and_run_compiled:
  assumes "compile E ts input_holder filter_holder conv target target_host
             (f_name_of idx phase kernel' space input_channel output_channel) tr = (Inr f, tr1)"
  shows "build_and_run E phase idx input_holder filter_holder kernel' space input_channel
           output_channel stride pad layout tvm_input tvm_filter tvm_output ctx ts conv
           target target_host warmup run ops remote tr
         = (case upload_and_time E remote f
                  (f_name_of idx phase kernel' space input_channel output_channel)
                  tvm_input tvm_filter tvm_output ctx warmup run tr1 of
              (Inl e, tr2) \<Rightarrow> (Inl e, tr2 @ [Exit Tvm_build_config])
            | (Inr cost, tr2) \<Rightarrow>
                (returns_none E
                   (tr2 @ [Print (Line ''{0}--target: {1}, dtype: {2}, layout: {3}, stride: {4}, pad: {5}, input_shape: {6}, filter_shape: {7}, ops: {8} -> {9}''
                              [S phase, S target, S (nd_dtype tvm_input), S layout,
                               S (str_int stride), S (str_int pad), Sh (t_shape input_holder),
                               Sh (t_shape filter_holder), S (str_int ops), Fl cost])])
                   (Test_correctness input_channel output_channel kernel' stride pad
                      tvm_input tvm_filter tvm_output (nd_dtype tvm_input) layout
                      (phase = ''depthwise'')),
                 tr2 @ [Print (Line ''{0}--target: {1}, dtype: {2}, layout: {3}, stride: {4}, pad: {5}, input_shape: {6}, filter_shape: {7}, ops: {8} -> {9}''
                              [S phase, S target, S (nd_dtype tvm_input), S layout,
                               S (str_int stride), S (str_int pad), Sh (t_shape input_holder),
                               Sh (t_shape filter_holder), S (str_int ops), Fl cost]),
                        Call (Test_correctness input_channel output_channel kernel' stride pad
                          tvm_input tvm_filter tvm_output (nd_dtype tvm_input) layout
                          (phase = ''depthwise'')),
                        Exit Tvm_build_config]))"
proof -
  note c = compile_cases [OF assms]
  show ?thesis
    unfolding build_and_run_def
    by (simp add: py_with_entered c Let_def try_except_else_def ext_def io_bind_def print_def
        split: prod.splits sum.splits)
qed


lemma allocate_result:
  assumes "allocate E layout dtype ctx workload input_data filter_data conv tr
           = (Inr (tvm_input, tvm_filter, tvm_output, ops), tr')"
  shows "tvm_input = NDArray (Astype input_data (np_type dtype)) ctx \<and>
         tvm_filter = NDArray (Astype filter_data (np_type dtype)) ctx \<and>
         tvm_output = NDArray (Zeros (t_shape conv) (t_dtype conv)) ctx"
  using assms unfolding allocate_def
  by (auto simp: io_bind_def tvm_nd_array_def ext_def io_return_def split: sum.splits prod.splits)

lemma silent_upload_and_time:
  assumes "\<And>c. (case c of Util_tempdir \<Rightarrow> True | Tempdir_relpath t n \<Rightarrow> True
              | Export_library f p \<Rightarrow> True | Remote_upload s p \<Rightarrow> True
              | Remote_load_module s n \<Rightarrow> True | Invoke f i w out \<Rightarrow> True
              | Time_evaluator f ctx n \<Rightarrow> True | Timer_call t i w out \<Rightarrow> True | _ \<Rightarrow> False)
            \<Longrightarrow> \<not> P (Call c)"
  shows "silent P (upload_and_time E remote f f_name tvm_input tvm_filter tvm_output ctx
                     warmup run)"
  unfolding upload_and_time_def upload_code_def warmup_and_time_def Let_def
  by (intro silent_intros assms) simp_all

lemma silent_compile:
  assumes "\<not> P (Call Tvm_build_config)"
    and "\<not> P (Call (Tvm_build ts [ih, fh, conv] target target_host f_name))"
  shows "silent P (compile E ts ih fh conv target target_host f_name)"
  unfolding compile_def by (intro silent_intros assms)

lemma silent_allocate:
  assumes "\<And>c. (case c of Tvm_nd_array a x \<Rightarrow> True | Get_num_ops a b c d e \<Rightarrow> True | _ \<Rightarrow> False)
            \<Longrightarrow> \<not> P (Call c)"
  shows "silent P (allocate E layout dtype ctx workload input_data filter_data conv)"
  unfolding allocate_def by (intro silent_intros assms) simp_all

lemma depthwise_phase [simp]:
  "((if dw then ''depthwise'' else ''standard'') = ''depthwise'') = dw"
  by simp

lemma allocate_and_run_run_failed:
  assumes alloc: "allocate E layout dtype ctx workload input_data filter_data conv tr
                  = (Inr (tvm_input, tvm_filter, tvm_output, ops), tr1)"
    and comp: "compile E ts input_holder filter_holder conv target target_host
                 (f_name_of idx (if wl_depthwise workload then ''depthwise'' else ''standard'')
                    (wl_kernel workload) (wl_space workload) (wl_input_channel workload)
                    (wl_output_channel workload)) tr1 = (Inr f, tr2)"
    and run: "upload_and_time E remote f
                (f_name_of idx (if wl_depthwise workload then ''depthwise'' else ''standard'')
                   (wl_kernel workload) (wl_space workload) (wl_input_channel workload)
                   (wl_output_channel workload))
                tvm_input tvm_filter tvm_output ctx (wl_warmup workload) (wl_run workload) tr2
              = (Inl e, tr3)"
  shows "allocate_and_run E layout dtype remote target target_host ctx idx workload
           input_holder filter_holder input_data filter_data conv ts tr
         = (Inl e, tr3 @ [Exit Tvm_build_config])"
  using alloc run
  by (simp add: allocate_and_run_def Let_def io_bind_def build_and_run_compiled [OF comp])

lemma not_result_run_simps [simp]:
  "\<not> is_result (Call (Tvm_nd_array a c))"
  "\<not> is_result (Call (Get_num_ops o1 o2 o3 o4 o5))"
  "\<not> is_result (Call Tvm_build_config)"
  "\<not> is_result (Call (Tvm_build ts hs t th n))"
  "\<not> is_result (Call Util_tempdir)"
  "\<not> is_result (Call (Tempdir_relpath d n))"
  "\<not> is_result (Call (Export_library f p))"
  "\<not> is_result (Call (Remote_upload s p))"
  "\<not> is_result (Call (Remote_load_module s n))"
  "\<not> is_result (Call (Invoke f i w out))"
  "\<not> is_result (Call (Time_evaluator f c r))"
  "\<not> is_result (Call (Timer_call t i w out))"
  by (simp_all add: is_result_def)

lemma map_filter_silent:
  "silent (\<lambda>ev. f ev \<noteq> None) m \<Longrightarrow> List.map_filter f (snd (m tr)) = List.map_filter f tr"
  by (simp add: List.map_filter_def silentD)

lemma silent_build_and_run:
  assumes "\<And>c. (case c of Tvm_build_config \<Rightarrow> True | Tvm_build a b c d e \<Rightarrow> True
              | Util_tempdir \<Rightarrow> True | Tempdir_relpath t n \<Rightarrow> True
              | Export_library f p \<Rightarrow> True | Remote_upload s p \<Rightarrow> True
              | Remote_load_module s n \<Rightarrow> True | Invoke f i w out \<Rightarrow> True
              | Time_evaluator f ctx n \<Rightarrow> True | Timer_call t i w out \<Rightarrow> True
              | Test_correctness a b c d e f g h i j k \<Rightarrow> True | _ \<Rightarrow> False)
            \<Longrightarrow> \<not> P (Call c)"
    and "\<And>l. \<not> P (Print l)" and "\<not> P (Exit Tvm_build_config)"
  shows "silent P (build_and_run E phase idx input_holder filter_holder kernel' space
           input_channel output_channel stride pad layout tvm_input tvm_filter tvm_output ctx ts
           conv target target_host warmup run ops remote)"
  unfolding build_and_run_def upload_and_time_def upload_code_def warmup_and_time_def Let_def
  by (intro silent_intros assms) simp_all

lemma allocate_allocations:
  "\<exists>n. List.map_filter allocated_from
          (snd (allocate E layout dtype ctx workload input_data filter_data conv tr))
        = List.map_filter allocated_from tr @
          take n [Astype input_data (np_type dtype), Astype filter_data (np_type dtype),
                  Zeros (t_shape conv) (t_dtype conv)]"
proof -
  let ?xs = "[Astype input_data (np_type dtype), Astype filter_data (np_type dtype),
              Zeros (t_shape conv) (t_dtype conv)]"
  have "List.map_filter allocated_from
          (snd (allocate E layout dtype ctx workload input_data filter_data conv tr))
        \<in> {List.map_filter allocated_from tr @ take 1 ?xs,
            List.map_filter allocated_from tr @ take 2 ?xs,
            List.map_filter allocated_from tr @ take 3 ?xs}"
    by (simp add: allocate_def io_bind_def tvm_nd_array_def ext_def io_return_def io_raise_def
        const_tuple_at_def map_filter_append List.map_filter_simps split: sum.splits)
  then show ?thesis by blast
qed

lemma allocate_and_run_allocations:
  "\<exists>n. List.map_filter allocated_from
          (snd (allocate_and_run E layout dtype remote target target_host ctx idx workload
                  input_holder filter_holder input_data filter_data conv ts tr))
        = List.map_filter allocated_from tr @
          take n [Astype input_data (np_type dtype), Astype filter_data (np_type dtype),
                  Zeros (t_shape conv) (t_dtype conv)]"
proof (cases "allocate E layout dtype ctx workload input_data filter_data conv tr")
  case (Pair r tr1)
  from allocate_allocations [of E layout dtype ctx workload input_data filter_data conv tr]
  obtain n where n: "List.map_filter allocated_from tr1 = List.map_filter allocated_from tr @
          take n [Astype input_data (np_type dtype), Astype filter_data (np_type dtype),
                  Zeros (t_shape conv) (t_dtype conv)]"
    using Pair by auto
  show ?thesis
  proof (cases r)
    case (Inl e)
    with Pair n show ?thesis by (auto simp: allocate_and_run_def Let_def io_bind_def)
  next
    case (Inr bufs)
    obtain i w out ops where bufs: "bufs = (i, w, out, ops)" by (cases bufs) auto
    let ?phase = "if wl_depthwise workload then ''depthwise'' else ''standard''"
    have "List.map_filter allocated_from
            (snd (build_and_run E ?phase idx input_holder filter_holder (wl_kernel workload)
               (wl_space workload) (wl_input_channel workload) (wl_output_channel workload)
               (wl_stride workload) (wl_pad workload) layout i w out ctx ts conv target
               target_host (wl_warmup workload) (wl_run workload) ops remote tr1))
          = List.map_filter allocated_from tr1"
      by (rule map_filter_silent, rule silent_build_and_run) (simp_all split: extcall.splits)
    with Pair Inr bufs n show ?thesis
      by (auto simp: allocate_and_run_def Let_def io_bind_def)
  qed
qed

lemma allocate_no_kernel_call:
  "List.map_filter kernel_buffers
     (snd (allocate E layout dtype ctx workload input_data filter_data conv tr))
   = List.map_filter kernel_buffers tr"
  by (rule map_filter_silent, rule silent_allocate) (simp split: extcall.splits)

lemma repeat_invoke_buffers:
  "\<exists>n. List.map_filter kernel_buffers
          (snd (repeat k (ext oracle (Invoke f i w out)) tr))
        = List.map_filter kernel_buffers tr @ replicate n (i, w, out)"
proof (induction k arbitrary: tr)
  case 0
  show ?case by (rule exI [of _ 0]) (simp add: io_return_def)
next
  case (Suc k)
  let ?m = "ext oracle (Invoke f i w out)"
  let ?tr = "tr @ [Call (Invoke f i w out)]"
  show ?case
  proof (cases "oracle tr (Invoke f i w out)")
    case (Inl e)
    then have "?m tr = (Inl e, ?tr)" by (simp add: ext_def)
    then have "snd (repeat (Suc k) ?m tr) = ?tr" by (simp add: io_bind_Inl)
    then show ?thesis
      by (intro exI [of _ 1]) (simp add: map_filter_append List.map_filter_simps)
  next
    case (Inr u)
    then have "?m tr = (Inr u, ?tr)" by (simp add: ext_def)
    then have step: "repeat (Suc k) ?m tr = repeat k ?m ?tr" by (simp add: io_bind_Inr)
    from Suc [of ?tr] obtain n where
      "List.map_filter kernel_buffers (snd (repeat k ?m ?tr))
       = List.map_filter kernel_buffers ?tr @ replicate n (i, w, out)"
      by blast
    then show ?thesis
      unfolding step
      by (intro exI [of _ "Suc n"]) (simp add: map_filter_append List.map_filter_simps)
  qed
qed

lemma warmup_and_time_buffers:
  "\<exists>n. List.map_filter kernel_buffers
          (snd (warmup_and_time E f i w out ctx warmup run tr))
        = List.map_filter kernel_buffers tr @ replicate n (i, w, out)"
proof (cases "repeat (nat warmup) (ext (returns_none E) (Invoke f i w out)) tr")
  case (Pair r tr1)
  from repeat_invoke_buffers [of "nat warmup" "returns_none E" f i w out tr] Pair
  obtain n where n: "List.map_filter kernel_buffers tr1
                     = List.map_filter kernel_buffers tr @ replicate n (i, w, out)"
    by auto
  show ?thesis
  proof (cases r)
    case (Inl e)
    with Pair n show ?thesis by (auto simp: warmup_and_time_def io_bind_def)
  next
    case (Inr u)
    show ?thesis
    proof (cases "returns_handle E tr1 (Time_evaluator f ctx run)")
      case (Inl e)
      with Pair Inr n show ?thesis
        by (intro exI [of _ n])
          (simp add: warmup_and_time_def io_bind_def ext_def map_filter_append
            List.map_filter_simps)
    next
      case (Inr timer)
      with Pair \<open>r = Inr u\<close> n show ?thesis
        by (intro exI [of _ "Suc n"])
          (simp add: warmup_and_time_def io_bind_def ext_def map_filter_append
            List.map_filter_simps replicate_append_same)
    qed
  qed
qed

lemma silent_upload_code:
  assumes "\<And>c. (case c of Util_tempdir \<Rightarrow> True | Tempdir_relpath t n \<Rightarrow> True
              | Export_library f p \<Rightarrow> True | Remote_upload s p \<Rightarrow> True
              | Remote_load_module s n \<Rightarrow> True | _ \<Rightarrow> False) \<Longrightarrow> \<not> P (Call c)"
  shows "silent P (upload_code E remote f f_name)"
  unfolding upload_code_def Let_def by (intro silent_intros assms) simp_all

lemma upload_and_time_buffers:
  "\<exists>n. List.map_filter kernel_buffers
          (snd (upload_and_time E remote f f_name i w out ctx warmup run tr))
        = List.map_filter kernel_buffers tr @ replicate n (i, w, out)"
proof (cases "upload_code E remote f f_name tr")
  case (Pair r tr1)
  have "silent (\<lambda>ev. kernel_buffers ev \<noteq> None) (upload_code E remote f f_name)"
    by (rule silent_upload_code) (simp split: extcall.splits)
  from map_filter_silent [OF this, of tr] Pair
  have k: "List.map_filter kernel_buffers tr1 = List.map_filter kernel_buffers tr" by simp
  show ?thesis
  proof (cases r)
    case (Inl e)
    with Pair k show ?thesis
      by (intro exI [of _ 0]) (simp add: upload_and_time_def io_bind_def)
  next
    case (Inr f')
    from warmup_and_time_buffers [of E f' i w out ctx warmup run tr1] Pair Inr k
    show ?thesis by (simp add: upload_and_time_def io_bind_def)
  qed
qed

lemma build_and_run_buffers:
  "\<exists>n. List.map_filter kernel_buffers
          (snd (build_and_run E phase idx input_holder filter_holder kernel' space
             input_channel output_channel stride pad layout tvm_input tvm_filter tvm_output ctx
             ts conv target target_host warmup run ops remote tr))
        = List.map_filter kernel_buffers tr @ replicate n (tvm_input, tvm_filter, tvm_output)"
proof -
  let ?name = "f_name_of idx phase kernel' space input_channel output_channel"
  let ?compile = "compile E ts input_holder filter_holder conv target target_host ?name"
  let ?b = "build_and_run E phase idx input_holder filter_holder kernel' space
             input_channel output_channel stride pad layout tvm_input tvm_filter tvm_output ctx
             ts conv target target_host warmup run ops remote"
  show ?thesis
  proof (cases "?compile tr")
    case (Pair r tr1)
    have "silent (\<lambda>ev. kernel_buffers ev \<noteq> None) ?compile"
      by (rule silent_compile) simp_all
    from map_filter_silent [OF this, of tr] Pair
    have k: "List.map_filter kernel_buffers tr1 = List.map_filter kernel_buffers tr" by simp
    show ?thesis
    proof (cases r)
      case (Inl e)
      have "List.map_filter kernel_buffers (snd (?b tr)) = List.map_filter kernel_buffers tr"
        using Pair Inl unfolding build_and_run_def compile_def
        by (auto simp: py_with_def Let_def try_except_else_def ext_def io_bind_def print_def
            map_filter_append List.map_filter_simps split: prod.splits sum.splits)
      then show ?thesis by (intro exI [of _ 0]) simp
    next
      case (Inr f)
      note cp = Pair [unfolded Inr]
      from upload_and_time_buffers [of E remote f ?name tvm_input tvm_filter tvm_output ctx
          warmup run tr1]
      obtain n where n: "List.map_filter kernel_buffers
          (snd (upload_and_time E remote f ?name tvm_input tvm_filter tvm_output ctx
                  warmup run tr1))
        = List.map_filter kernel_buffers tr1 @ replicate n (tvm_input, tvm_filter, tvm_output)"
        by blast
      show ?thesis
        using n k
        by (intro exI [of _ n])
          (auto simp: build_and_run_compiled [OF cp] map_filter_append List.map_filter_simps
            split: prod.splits sum.splits)
    qed
  qed
qed

lemma get_conv_ts_honoured:
  assumes "get_conv_ts E input_holder filter_holder stride pad layout dtype depthwise tr
           = (Inr (conv, ts), tr1)"
    and "\<And>h c t od. returns_tensor E h c = Inr t \<Longrightarrow> requested_out_dtype (Call c) = Some od
           \<Longrightarrow> t_dtype t = od"
  shows "t_dtype conv = (if tvm_type dtype = ''int8'' then ''int32'' else tvm_type dtype)"
proof -
  note d1 = assms(2) [OF _ requested_out_dtype.simps(1)]
  note d2 = assms(2) [OF _ requested_out_dtype.simps(2)]
  show ?thesis
    using assms(1) unfolding get_conv_ts_def Let_def
    by (auto simp: io_bind_def ext_def io_return_def io_raise_def
        split: if_splits sum.splits dest: d1 d2)
qed
section \<open>What one workload adds to the trace\<close>

lemma silent_get_conv_ts:
  assumes "\<And>c. (case c of Topi_nn_conv2d a b c d e f \<Rightarrow> True
              | Topi_nn_depthwise_conv2d a b c d e f \<Rightarrow> True
              | Topi_generic_schedule a b \<Rightarrow> True | _ \<Rightarrow> False) \<Longrightarrow> \<not> P (Call c)"
  shows "silent P (get_conv_ts E input_holder filter_holder stride pad layout dtype depthwise)"
  unfolding get_conv_ts_def Let_def by (intro silent_intros assms) simp_all

lemma silent_schedule_and_run:
  assumes "\<And>c. (case c of Topi_nn_conv2d a b c d e f \<Rightarrow> True
              | Topi_nn_depthwise_conv2d a b c d e f \<Rightarrow> True
              | Topi_generic_schedule a b \<Rightarrow> True
              | Tvm_nd_array a b \<Rightarrow> True | Get_num_ops a b c d e \<Rightarrow> True
              | Tvm_build_config \<Rightarrow> True | Tvm_build a b c d e \<Rightarrow> True
              | Util_tempdir \<Rightarrow> True | Tempdir_relpath t n \<Rightarrow> True
              | Export_library f p \<Rightarrow> True | Remote_upload s p \<Rightarrow> True
              | Remote_load_module s n \<Rightarrow> True | Invoke f i w out \<Rightarrow> True
              | Time_evaluator f ctx n \<Rightarrow> True | Timer_call t i w out \<Rightarrow> True
              | Test_correctness a b c d e f g h i j k \<Rightarrow> True | _ \<Rightarrow> False)
            \<Longrightarrow> \<not> P (Call c)"
    and "\<And>l. \<not> P (Print l)" and "\<not> P (Exit Tvm_build_config)"
  shows "silent P (schedule_and_run E layout dtype remote target target_host ctx idx workload
                     input_holder filter_holder input_data filter_data)"
  unfolding schedule_and_run_def allocate_and_run_def allocate_def get_conv_ts_def
    build_and_run_def upload_and_time_def upload_code_def warmup_and_time_def Let_def
  by (intro silent_intros assms) simp_all

lemma filter_leave_contexts:
  assumes "\<And>c. \<not> P (Exit c)"
  shows "filter P (tr @ leave_contexts key log_file schedule target) = filter P tr"
  using assms by (simp add: leave_contexts_def)

lemma before_schedule_draws:
  assumes "before_schedule E key log_file layout dtype schedule target workload tr
           = (Inr (input_holder, filter_holder, input_data, filter_data), tr1)"
  shows "input_data = Random_random (draws tr) (t_shape input_holder) \<and>
         filter_data = Random_random (Suc (draws tr)) (t_shape filter_holder) \<and>
         draws tr1 = draws tr + 2"
  using assms
  unfolding before_schedule_def prepare_def enter_contexts_def
  by (auto simp: io_bind_def ext_def io_return_def tvm_placeholder_def np_random_random_def
      draws_def split: sum.splits prod.splits if_splits)

lemma schedule_and_run_allocations:
  "\<exists>n (conv :: tensor). List.map_filter allocated_from
          (snd (schedule_and_run E layout dtype remote target target_host ctx idx workload
                  input_holder filter_holder input_data filter_data tr))
        = List.map_filter allocated_from tr @
          take n [Astype input_data (np_type dtype), Astype filter_data (np_type dtype),
                  Zeros (t_shape conv) (t_dtype conv)]"
proof (cases "get_conv_ts E input_holder filter_holder (wl_stride workload) (wl_pad workload)
                layout dtype (wl_depthwise workload) tr")
  case (Pair r tr1)
  have "List.map_filter allocated_from
          (snd (get_conv_ts E input_holder filter_holder (wl_stride workload) (wl_pad workload)
                  layout dtype (wl_depthwise workload) tr))
        = List.map_filter allocated_from tr"
    by (rule map_filter_silent, rule silent_get_conv_ts) (simp split: extcall.splits)
  with Pair have same: "List.map_filter allocated_from tr1 = List.map_filter allocated_from tr"
    by simp
  show ?thesis
  proof (cases r)
    case (Inl e)
    with Pair same have "List.map_filter allocated_from
          (snd (schedule_and_run E layout dtype remote target target_host ctx idx workload
                  input_holder filter_holder input_data filter_data tr))
        = List.map_filter allocated_from tr @ take 0 [Astype input_data (np_type dtype),
            Astype filter_data (np_type dtype), Zeros (t_shape undefined) (t_dtype undefined)]"
      by (simp add: schedule_and_run_schedule_failure map_filter_append List.map_filter_simps)
    then show ?thesis by blast
  next
    case (Inr p)
    obtain conv ts where p: "p = (conv, ts)" by (cases p)
    let ?a = "allocate_and_run E layout dtype remote target target_host ctx idx workload
                input_holder filter_holder input_data filter_data conv ts"
    from allocate_and_run_allocations [of E layout dtype remote target target_host ctx idx
        workload input_holder filter_holder input_data filter_data conv ts tr1]
    obtain n where n: "List.map_filter allocated_from (snd (?a tr1))
        = List.map_filter allocated_from tr1 @
          take n [Astype input_data (np_type dtype), Astype filter_data (np_type dtype),
                  Zeros (t_shape conv) (t_dtype conv)]"
      by blast
    have "List.map_filter allocated_from
          (snd (schedule_and_run E layout dtype remote target target_host ctx idx workload
                  input_holder filter_holder input_data filter_data tr))
        = List.map_filter allocated_from (snd (?a tr1))"
      using Pair Inr p
      by (cases "?a tr1")
        (auto simp: schedule_and_run_def Let_def try_except_else_def io_bind_def print_def
          io_return_def map_filter_append List.map_filter_simps split: sum.splits)
    with n same have "List.map_filter allocated_from
          (snd (schedule_and_run E layout dtype remote target target_host ctx idx workload
                  input_holder filter_holder input_data filter_data tr))
        = List.map_filter allocated_from tr @
          take n [Astype input_data (np_type dtype), Astype filter_data (np_type dtype),
                  Zeros (t_shape conv) (t_dtype conv)]"
      by simp
    then show ?thesis by blast
  qed
qed

section \<open>The \<^verbatim>\<open>__main__\<close> block\<close>

lemma main_run_benchmarks:
  "main E environ argv =
     io_bind (os_environ environ ''TVM_TRACKER_HOST'') (\<lambda>tracker_host.
     io_bind (io_bind (os_environ environ ''TVM_TRACKER_PORT'')
                (\<lambda>port. ext (returns_int E) (Builtin_int port))) (\<lambda>tracker_port.
     io_bind (sys_argv argv 1) (\<lambda>arch.
     io_bind (sys_argv argv 2) (\<lambda>mode.
     io_bind (if mode = ''remote'' then
                io_bind (sys_argv argv 3) (\<lambda>key.
                io_bind (ext (returns_handle E) (Rpc_connect_tracker tracker_host tracker_port))
                  (\<lambda>tracker.
                io_bind (ext (returns_handle E) (Tracker_request tracker key)) (\<lambda>remote.
                io_return (key, Some remote))))
              else io_return (''android'', None))
       (\<lambda>(key, remote). run_benchmarks E argv ''convolutions.log'' arch key remote)))))"
  by (simp add: main_def run_benchmarks_def Let_def)

lemma silent_sys_argv [silent_intros]: "silent P (sys_argv argv i)"
  unfolding sys_argv_def by (intro silent_intros)

lemma silent_workload_body:
  assumes "\<And>c. (case c of Rpc_connect_tracker a b \<Rightarrow> False | Tracker_request a b \<Rightarrow> False
              | Builtin_int a \<Rightarrow> False | Get_data_type a \<Rightarrow> False | Get_workloads a \<Rightarrow> False
              | Config_arch a b c d \<Rightarrow> False | _ \<Rightarrow> True) \<Longrightarrow> \<not> P (Call c)"
    and "\<And>l. \<not> P (Print l)" and "\<And>c. \<not> P (Exit c)"
  shows "silent P (workload_body E key log_file layout dtype remote schedule target target_host
                     ctx iw)"
proof (cases "schedule = ''manual''")
  case True
  show ?thesis
    unfolding workload_body_def prepare_def Let_def if_P [OF True]
    by (intro silent_intros silent_schedule_and_run assms) (simp_all split: extcall.splits)
next
  case False
  show ?thesis
    unfolding workload_body_def prepare_def Let_def if_not_P [OF False]
    by (intro silent_intros silent_schedule_and_run assms) (simp_all split: extcall.splits)
qed

lemma silent_bench_tvm:
  assumes "\<And>c. (case c of Rpc_connect_tracker a b \<Rightarrow> False | Tracker_request a b \<Rightarrow> False
              | Builtin_int a \<Rightarrow> False | Get_data_type a \<Rightarrow> False | Get_workloads a \<Rightarrow> False
              | _ \<Rightarrow> True) \<Longrightarrow> \<not> P (Call c)"
    and "\<And>l. \<not> P (Print l)" and "\<And>c. \<not> P (Exit c)"
  shows "silent P (bench_tvm E key log_file arch tgt dtype layout workloads remote schedule)"
  unfolding bench_tvm_def
  by (intro silent_intros silent_workload_body assms) (simp_all split: extcall.splits)

lemma silent_run_benchmarks:
  assumes "\<And>c. (case c of Rpc_connect_tracker a b \<Rightarrow> False | Tracker_request a b \<Rightarrow> False
              | Builtin_int a \<Rightarrow> False | _ \<Rightarrow> True) \<Longrightarrow> \<not> P (Call c)"
    and "\<And>l. \<not> P (Print l)" and "\<And>c. \<not> P (Exit c)"
  shows "silent P (run_benchmarks E argv log_file arch key remote)"
  unfolding run_benchmarks_def sweep_def
  by (intro silent_intros silent_bench_tvm assms) (simp_all split: extcall.splits)

section \<open>Where the compiler is called\<close>



section \<open>Claims about the driver\<close>

text \<open>
  C1. Once a workload has reached schedule construction, an exception raised by
  \<^verbatim>\<open>get_conv_ts\<close>, which an unsupported layout string always causes, is caught: the exception
  and the schedule-skip line are printed, the two context managers are left, no cost line and
  no correctness check is produced for the workload, and the loop goes on with the next
  workload.
\<close>

theorem schedule_failure_skips_workload:
  assumes reach: "before_schedule E key log_file layout dtype schedule target workload tr
                  = (Inr (input_holder, filter_holder, input_data, filter_data), tr1)"
    and fail: "fst (get_conv_ts E input_holder filter_holder (wl_stride workload)
                  (wl_pad workload) layout dtype (wl_depthwise workload) tr1) = Inl e
               \<or> layout \<notin> {''NCHW'', ''NHWC'', ''HWCN''}"
  shows "\<exists>e tr2 tr3.
           get_conv_ts E input_holder filter_holder (wl_stride workload) (wl_pad workload)
             layout dtype (wl_depthwise workload) tr1 = (Inl e, tr2) \<and>
           tr3 = tr2 @
             [Print (Exc e),
              Print (Line ''standard--target: {0}, dtype: {1}, layout: {2}, input_shape: {3}, filter_shape: {4} -> schedule skip''
                [S target, S (t_dtype input_holder), S layout, Sh (t_shape input_holder),
                 Sh (t_shape filter_holder)])] @
             leave_contexts key log_file schedule target \<and>
           filter is_result tr3 = filter is_result tr \<and>
           for_each ((idx, workload) # rest)
             (workload_body E key log_file layout dtype remote schedule target target_host ctx) tr
           = for_each rest
               (workload_body E key log_file layout dtype remote schedule target target_host ctx)
               tr3"
proof -
  let ?g = "get_conv_ts E input_holder filter_holder (wl_stride workload) (wl_pad workload)
             layout dtype (wl_depthwise workload)"
  from fail get_conv_ts_unsupported obtain e' where "fst (?g tr1) = Inl e'" by metis
  then obtain tr2 where g: "?g tr1 = (Inl e', tr2)" by (cases "?g tr1") auto
  have r1: "filter is_result tr1 = filter is_result tr"
    using silent_result_before_schedule reach by (rule silentD2)
  have r2: "filter is_result tr2 = filter is_result tr1"
    using silent_result_get_conv_ts g by (rule silentD2)
  have body: "workload_body E key log_file layout dtype remote schedule target target_host ctx
                (idx, workload) tr
              = (Inr (), tr2 @
                  [Print (Exc e'),
                   Print (Line ''standard--target: {0}, dtype: {1}, layout: {2}, input_shape: {3}, filter_shape: {4} -> schedule skip''
                     [S target, S (t_dtype input_holder), S layout, Sh (t_shape input_holder),
                      Sh (t_shape filter_holder)])] @
                  leave_contexts key log_file schedule target)"
    by (simp add: workload_body_reached [OF reach] schedule_and_run_schedule_failure [OF g])
  show ?thesis
    using g r1 r2 body
    by (auto simp: io_bind_Inr leave_contexts_def is_result_def)
qed


theorem schedule_failure_skips_workload_witness:
  "before_schedule E_ok ''android'' ''convolutions.log'' ''NCWH'' dt_f32 ''auto'' ''llvm'' w_std []
   = (Inr (\<lparr>t_shape = [1, 32, 56, 56], t_dtype = ''float32''\<rparr>,
           \<lparr>t_shape = [64, 32, 3, 3], t_dtype = ''float32''\<rparr>,
           Random_random 0 [1, 32, 56, 56], Random_random 1 [64, 32, 3, 3]),
      [Call (Get_input_and_filter_shape ''NCWH'' 56 32 64 3 False),
       Call (Tvm_placeholder [1, 32, 56, 56] ''float32''),
       Call (Tvm_placeholder [64, 32, 3, 3] ''float32''), Call (Tvm_var ''s''),
       Call (Tvm_var ''p''), Call (Np_random_random [1, 32, 56, 56]),
       Call (Np_random_random [64, 32, 3, 3]),
       Call (Tvm_target_create ''llvm'')]) \<and>
   ''NCWH'' \<notin> {''NCHW'', ''NHWC'', ''HWCN''} \<and>
   (\<exists>tr3. for_each [(0, w_std)]
            (workload_body E_ok ''android'' ''convolutions.log'' ''NCWH'' dt_f32 None ''auto''
               ''llvm'' None ''cpu(0)'') []
          = for_each []
              (workload_body E_ok ''android'' ''convolutions.log'' ''NCWH'' dt_f32 None ''auto''
                 ''llvm'' None ''cpu(0)'') tr3 \<and>
          filter is_result tr3 = [])"
proof -
  have l: "''NCWH'' \<notin> {''NCHW'', ''NHWC'', ''HWCN''}" by simp
  from schedule_failure_skips_workload [where idx = 0 and rest = "[]" and remote = None
      and target_host = None and ctx = "''cpu(0)''", OF before_schedule_std disjI2 [OF l]]
  show ?thesis using before_schedule_std l by auto
qed

text \<open>
  C2. When a workload has been compiled and an exception is raised while the module is
  exported, uploaded or loaded, during a warmup call, or by the time evaluator or the timer,
  nothing inside \<^verbatim>\<open>build_and_run\<close> handles it: it reaches the handler of the workload, which
  prints the exception and the run-skip line; no cost line and no correctness check is
  produced, and the loop goes on with the next workload.
\<close>

theorem run_failure_skips_workload:
  assumes reach: "before_schedule E key log_file layout dtype schedule target workload tr
                  = (Inr (input_holder, filter_holder, input_data, filter_data), tr1)"
    and sched: "get_conv_ts E input_holder filter_holder (wl_stride workload) (wl_pad workload)
                  layout dtype (wl_depthwise workload) tr1 = (Inr (conv, ts), tr2)"
    and alloc: "allocate E layout dtype ctx workload input_data filter_data conv tr2
                = (Inr (tvm_input, tvm_filter, tvm_output, ops), tr3)"
    and comp: "compile E ts input_holder filter_holder conv target target_host
                 (f_name_of idx (if wl_depthwise workload then ''depthwise'' else ''standard'')
                    (wl_kernel workload) (wl_space workload) (wl_input_channel workload)
                    (wl_output_channel workload)) tr3 = (Inr f, tr4)"
    and run: "upload_and_time E remote f
                (f_name_of idx (if wl_depthwise workload then ''depthwise'' else ''standard'')
                   (wl_kernel workload) (wl_space workload) (wl_input_channel workload)
                   (wl_output_channel workload))
                tvm_input tvm_filter tvm_output ctx (wl_warmup workload) (wl_run workload) tr4
              = (Inl e, tr5)"
  shows "for_each ((idx, workload) # rest)
           (workload_body E key log_file layout dtype remote schedule target target_host ctx) tr
         = for_each rest
             (workload_body E key log_file layout dtype remote schedule target target_host ctx)
             (tr5 @
              [Exit Tvm_build_config,
               Print (Exc e),
               Print (Line ''{0}--target: {1}, dtype: {2}, layout: {3}, input_shape: {4}, filter_shape: {5} -> run skip''
                 [S (if wl_depthwise workload then ''depthwise'' else ''standard''), S target,
                  S (t_dtype input_holder), S layout, Sh (t_shape input_holder),
                  Sh (t_shape filter_holder)])] @
              leave_contexts key log_file schedule target)
         \<and> filter is_result tr5 = filter is_result tr"
proof -
  have r1: "filter is_result tr1 = filter is_result tr"
    using silent_result_before_schedule reach by (rule silentD2)
  have r2: "filter is_result tr2 = filter is_result tr1"
    using silent_result_get_conv_ts sched by (rule silentD2)
  have r3: "filter is_result tr3 = filter is_result tr2"
    by (rule silentD2 [OF silent_allocate alloc]) (simp split: extcall.splits)
  have r4: "filter is_result tr4 = filter is_result tr3"
    by (rule silentD2 [OF silent_compile comp]) simp_all
  have r5: "filter is_result tr5 = filter is_result tr4"
    by (rule silentD2 [OF silent_upload_and_time run]) (simp split: extcall.splits)
  note ar = allocate_and_run_run_failed [OF alloc comp run]
  have body: "workload_body E key log_file layout dtype remote schedule target target_host ctx
                (idx, workload) tr
              = (Inr (), tr5 @
              [Exit Tvm_build_config,
               Print (Exc e),
               Print (Line ''{0}--target: {1}, dtype: {2}, layout: {3}, input_shape: {4}, filter_shape: {5} -> run skip''
                 [S (if wl_depthwise workload then ''depthwise'' else ''standard''), S target,
                  S (t_dtype input_holder), S layout, Sh (t_shape input_holder),
                  Sh (t_shape filter_holder)])] @
              leave_contexts key log_file schedule target)"
    by (simp add: workload_body_reached [OF reach]
        schedule_and_run_run_failure [OF sched ar])
  show ?thesis using body r1 r2 r3 r4 r5 by (simp add: io_bind_Inr)
qed

theorem run_failure_skips_workload_witness:
  "\<exists>input_holder filter_holder input_data filter_data tr1 conv ts tr2
      tvm_input tvm_filter tvm_output ops tr3 f tr4 tr5.
     before_schedule E_timer_fails ''android'' ''convolutions.log'' ''NCHW'' dt_f32 ''auto''
       ''llvm'' w_std []
     = (Inr (input_holder, filter_holder, input_data, filter_data), tr1) \<and>
     get_conv_ts E_timer_fails input_holder filter_holder (wl_stride w_std) (wl_pad w_std)
       ''NCHW'' dt_f32 (wl_depthwise w_std) tr1 = (Inr (conv, ts), tr2) \<and>
     allocate E_timer_fails ''NCHW'' dt_f32 ''cpu(0)'' w_std input_data filter_data conv tr2
     = (Inr (tvm_input, tvm_filter, tvm_output, ops), tr3) \<and>
     compile E_timer_fails ts input_holder filter_holder conv ''llvm'' None
       ''0_standard_3_56_32_64'' tr3 = (Inr f, tr4) \<and>
     upload_and_time E_timer_fails None f ''0_standard_3_56_32_64'' tvm_input tvm_filter
       tvm_output ''cpu(0)'' (wl_warmup w_std) (wl_run w_std) tr4
     = (Inl (Raised ''time_evaluator failed''), tr5) \<and>
     for_each [(0, w_std)]
       (workload_body E_timer_fails ''android'' ''convolutions.log'' ''NCHW'' dt_f32 None
          ''auto'' ''llvm'' None ''cpu(0)'') []
     = (Inr (), tr5 @
         [Exit Tvm_build_config,
          Print (Exc (Raised ''time_evaluator failed'')),
          Print (Line ''{0}--target: {1}, dtype: {2}, layout: {3}, input_shape: {4}, filter_shape: {5} -> run skip''
            [S ''standard'', S ''llvm'', S ''float32'', S ''NCHW'', Sh [1, 32, 56, 56],
             Sh [64, 32, 3, 3]]),
          Exit (Tvm_target_create ''llvm'')]) \<and>
     filter is_result tr5 = []"
proof -
  let ?E = E_timer_fails
  let ?ih = "\<lparr>t_shape = [1, 32, 56, 56], t_dtype = ''float32''\<rparr>"
  let ?fh = "\<lparr>t_shape = [64, 32, 3, 3], t_dtype = ''float32''\<rparr>"
  let ?conv = "\<lparr>t_shape = [1, 64, 56, 56], t_dtype = ''float32''\<rparr>"
  let ?i = "NDArray (Astype (Random_random 0 [1, 32, 56, 56]) ''float32'') ''cpu(0)''"
  let ?w = "NDArray (Astype (Random_random 1 [64, 32, 3, 3]) ''float32'') ''cpu(0)''"
  let ?out = "NDArray (Zeros [1, 64, 56, 56] ''float32'') ''cpu(0)''"
  let ?name = "f_name_of 0 (if wl_depthwise w_std then ''depthwise'' else ''standard'')
                 (wl_kernel w_std) (wl_space w_std) (wl_input_channel w_std)
                 (wl_output_channel w_std)"
  note envs = E_timer_fails_def E_ok_def w_std_def dt_f32_def
  obtain tr1 where h1: "before_schedule ?E ''android'' ''convolutions.log'' ''NCHW'' dt_f32
      ''auto'' ''llvm'' w_std []
      = (Inr (?ih, ?fh, Random_random 0 [1, 32, 56, 56], Random_random 1 [64, 32, 3, 3]), tr1)"
    by (simp add: before_schedule_def prepare_def enter_contexts_def envs run_simps)
  obtain tr2 where h2: "get_conv_ts ?E ?ih ?fh (wl_stride w_std) (wl_pad w_std) ''NCHW'' dt_f32
      (wl_depthwise w_std) tr1 = (Inr (?conv, ''handle''), tr2)"
    by (simp add: get_conv_ts_def envs run_simps)
  obtain tr3 where h3: "allocate ?E ''NCHW'' dt_f32 ''cpu(0)'' w_std
      (Random_random 0 [1, 32, 56, 56]) (Random_random 1 [64, 32, 3, 3]) ?conv tr2
      = (Inr (?i, ?w, ?out, 9090), tr3)"
    by (simp add: allocate_def envs run_simps)
  have name: "?name = ''0_standard_3_56_32_64''"
    by (simp add: w_std_def f_name_of_def str_int_def str_nat.simps)
  obtain tr4 where h4: "compile ?E ''handle'' ?ih ?fh ?conv ''llvm'' None ?name tr3
      = (Inr ''handle'', tr4)"
    by (simp add: compile_def envs run_simps)
  obtain tr5 where h5: "upload_and_time ?E None ''handle'' ?name ?i ?w ?out ''cpu(0)''
      (wl_warmup w_std) (wl_run w_std) tr4 = (Inl (Raised ''time_evaluator failed''), tr5)"
    by (simp add: upload_and_time_def upload_code_def warmup_and_time_def envs run_simps)
  note concl = run_failure_skips_workload [where rest = "[]" and schedule = "''auto''"
      and key = "''android''" and log_file = "''convolutions.log''" and idx = 0
      and remote = None and target_host = None, OF h1 h2 h3 h4 h5]
  from concl have c1: "for_each [(0, w_std)]
       (workload_body E_timer_fails ''android'' ''convolutions.log'' ''NCHW'' dt_f32 None
          ''auto'' ''llvm'' None ''cpu(0)'') []
     = (Inr (), tr5 @
         [Exit Tvm_build_config,
          Print (Exc (Raised ''time_evaluator failed'')),
          Print (Line ''{0}--target: {1}, dtype: {2}, layout: {3}, input_shape: {4}, filter_shape: {5} -> run skip''
            [S ''standard'', S ''llvm'', S ''float32'', S ''NCHW'', Sh [1, 32, 56, 56],
             Sh [64, 32, 3, 3]]),
          Exit (Tvm_target_create ''llvm'')])"
    by (simp add: io_return_def leave_contexts_def w_std_def)
  from concl have c2: "filter is_result tr5 = []" by simp
  show ?thesis
    using h1 h2 h3 h4 [unfolded name] h5 [unfolded name] c1 c2 by blast
qed

text \<open>
  C4. Whatever the workload, \<^verbatim>\<open>get_conv_ts\<close> builds exactly one convolution operator when the
  layout is one of NCHW, NHWC and HWCN, dense or depthwise alike, and the output dtype it asks
  that operator for is \<^verbatim>\<open>int32\<close> when the input dtype is \<^verbatim>\<open>int8\<close> and the input dtype itself
  otherwise (so floating-point inputs keep their width).
\<close>

theorem output_type_promoted:
  assumes "layout \<in> {''NCHW'', ''NHWC'', ''HWCN''}"
  shows "List.map_filter requested_out_dtype
           (snd (get_conv_ts E input_holder filter_holder stride pad layout dtype depthwise tr))
         = List.map_filter requested_out_dtype tr @
           [if tvm_type dtype = ''int8'' then ''int32'' else tvm_type dtype]"
proof -
  consider "layout = ''NCHW''" | "layout = ''NHWC''" | "layout = ''HWCN''"
    using assms by auto
  then show ?thesis
    by cases
      (simp_all add: get_conv_ts_def io_bind_def ext_def io_return_def Let_def
         map_filter_append List.map_filter_simps split: sum.splits)
qed

theorem output_type_promoted_witness:
  "''NHWC'' \<in> {''NCHW'', ''NHWC'', ''HWCN''} \<and>
   List.map_filter requested_out_dtype
     (snd (get_conv_ts E_ok \<lparr>t_shape = [1, 56, 56, 32], t_dtype = ''int8''\<rparr>
             \<lparr>t_shape = [3, 3, 32, 1], t_dtype = ''int8''\<rparr> 2 1 ''NHWC''
             \<lparr>tvm_type = ''int8'', np_type = ''int8''\<rparr> True [])) = [''int32'']"
  using output_type_promoted [of "''NHWC''" E_ok
      "\<lparr>t_shape = [1, 56, 56, 32], t_dtype = ''int8''\<rparr>"
      "\<lparr>t_shape = [3, 3, 32, 1], t_dtype = ''int8''\<rparr>" 2 1
      "\<lparr>tvm_type = ''int8'', np_type = ''int8''\<rparr>" True "[]"]
  by (simp add: List.map_filter_simps)





text \<open>
  C7, as stated, fails. In one configuration with the two workloads \<open>w_std\<close> and \<open>w_dw\<close> and
  a compiler that fails on both, \<^verbatim>\<open>np.random.random\<close> has been called four times when
  \<^verbatim>\<open>bench_tvm\<close> returns, and the buffers of the second workload are filled from the third and
  the fourth draw: the data is generated for every workload, not once for the configuration,
  and the failed builds have consumed their draws.
\<close>

theorem random_data_drawn_for_each_workload:
  "draws (snd (bench_tvm E_build_fails ''android'' ''convolutions.log'' ''arm64'' ''cpu'' dt_i8
                 ''NCHW'' [w_std, w_dw] None ''auto'' [])) = 4 \<and>
   List.map_filter allocated_from
     (snd (bench_tvm E_build_fails ''android'' ''convolutions.log'' ''arm64'' ''cpu'' dt_i8
             ''NCHW'' [w_std, w_dw] None ''auto'' []))
   = [Astype (Random_random 0 [1, 32, 56, 56]) ''int8'',
      Astype (Random_random 1 [64, 32, 3, 3]) ''int8'', Zeros [1, 64, 56, 56] ''int32'',
      Astype (Random_random 2 [1, 32, 56, 56]) ''int8'',
      Astype (Random_random 3 [64, 32, 3, 3]) ''int8'', Zeros [1, 64, 56, 56] ''int32''] \<and>
   length (filter is_build
     (snd (bench_tvm E_build_fails ''android'' ''convolutions.log'' ''arm64'' ''cpu'' dt_i8
             ''NCHW'' [w_std, w_dw] None ''auto'' []))) = 2 \<and>
   filter is_result
     (snd (bench_tvm E_build_fails ''android'' ''convolutions.log'' ''arm64'' ''cpu'' dt_i8
             ''NCHW'' [w_std, w_dw] None ''auto'' [])) = []"
  by (simp add: bench_tvm_def workload_body_def prepare_def schedule_and_run_def
      allocate_and_run_def allocate_def build_and_run_def get_conv_ts_def f_name_of_def
      E_build_fails_def E_ok_def w_std_def w_dw_def dt_i8_def run_simps List.map_filter_simps
      is_result_def)

text \<open>
  C7, amended. The uniform-random input and filter data are generated once per workload, in
  the loop over the workloads of a configuration and before the schedule is constructed and
  anything is built: a workload that reaches schedule construction has by then made exactly
  two draws, the first for the input and the second for the filter, and makes no other draw,
  whether its schedule construction, build or run then fails or not. Every buffer allocated
  for the workload is filled from these two arrays, or with zeros.
\<close>

theorem random_data_drawn_per_workload:
  assumes reach: "before_schedule E key log_file layout dtype schedule target workload tr
                  = (Inr (input_holder, filter_holder, input_data, filter_data), tr1)"
  shows "input_data = Random_random (draws tr) (t_shape input_holder) \<and>
         filter_data = Random_random (Suc (draws tr)) (t_shape filter_holder) \<and>
         draws tr1 = draws tr + 2 \<and>
         filter is_construct tr1 = filter is_construct tr \<and>
         filter is_build tr1 = filter is_build tr \<and>
         draws (snd (workload_body E key log_file layout dtype remote schedule target
                       target_host ctx (idx, workload) tr)) = draws tr + 2 \<and>
         (\<exists>n (conv :: tensor). List.map_filter allocated_from
                      (snd (workload_body E key log_file layout dtype remote schedule target
                              target_host ctx (idx, workload) tr))
                    = List.map_filter allocated_from tr @
                      take n [Astype input_data (np_type dtype),
                              Astype filter_data (np_type dtype),
                              Zeros (t_shape conv) (t_dtype conv)])"
proof -
  let ?s = "schedule_and_run E layout dtype remote target target_host ctx idx workload
              input_holder filter_holder input_data filter_data"
  note d = before_schedule_draws [OF reach]
  have "silent is_construct (before_schedule E key log_file layout dtype schedule target workload)"
    unfolding before_schedule_def prepare_def enter_contexts_def
    by (intro silent_intros) (simp_all add: is_construct_def)
  from silentD2 [OF this reach]
  have c: "filter is_construct tr1 = filter is_construct tr" .
  have "silent is_build (before_schedule E key log_file layout dtype schedule target workload)"
    unfolding before_schedule_def prepare_def enter_contexts_def
    by (intro silent_intros) simp_all
  from silentD2 [OF this reach]
  have b: "filter is_build tr1 = filter is_build tr" .
  have "silent (\<lambda>ev. allocated_from ev \<noteq> None)
          (before_schedule E key log_file layout dtype schedule target workload)"
    unfolding before_schedule_def prepare_def enter_contexts_def
    by (intro silent_intros) simp_all
  from silentD2 [OF this reach]
  have a: "List.map_filter allocated_from tr1 = List.map_filter allocated_from tr"
    by (simp add: List.map_filter_def)
  have body: "snd (workload_body E key log_file layout dtype remote schedule target
                     target_host ctx (idx, workload) tr)
              = snd (?s tr1) @ leave_contexts key log_file schedule target"
    by (simp add: workload_body_reached [OF reach] split: prod.splits)
  have "silent is_draw ?s"
    by (rule silent_schedule_and_run) (simp_all split: extcall.splits)
  then have "draws (snd (?s tr1)) = draws tr1"
    by (simp add: draws_def silentD)
  with d have dr: "draws (snd (workload_body E key log_file layout dtype remote schedule target
                       target_host ctx (idx, workload) tr)) = draws tr + 2"
    by (simp add: body draws_def leave_contexts_def)
  from schedule_and_run_allocations [of E layout dtype remote target target_host ctx idx
      workload input_holder filter_holder input_data filter_data tr1]
  obtain n and conv :: tensor where "List.map_filter allocated_from (snd (?s tr1))
        = List.map_filter allocated_from tr1 @
          take n [Astype input_data (np_type dtype), Astype filter_data (np_type dtype),
                  Zeros (t_shape conv) (t_dtype conv)]"
    by blast
  with a have "List.map_filter allocated_from
                      (snd (workload_body E key log_file layout dtype remote schedule target
                              target_host ctx (idx, workload) tr))
                    = List.map_filter allocated_from tr @
                      take n [Astype input_data (np_type dtype),
                              Astype filter_data (np_type dtype),
                              Zeros (t_shape conv) (t_dtype conv)]"
    by (simp add: body map_filter_append leave_contexts_def List.map_filter_simps)
  then have al: "\<exists>n (conv :: tensor). List.map_filter allocated_from
                      (snd (workload_body E key log_file layout dtype remote schedule target
                              target_host ctx (idx, workload) tr))
                    = List.map_filter allocated_from tr @
                      take n [Astype input_data (np_type dtype),
                              Astype filter_data (np_type dtype),
                              Zeros (t_shape conv) (t_dtype conv)]"
    by blast
  from d c b dr al show ?thesis by (intro conjI) simp_all
qed

theorem random_data_drawn_per_workload_witness:
  "\<exists>tr1. before_schedule E_build_fails ''android'' ''convolutions.log'' ''NCHW'' dt_i8 ''auto''
       ''llvm'' w_dw [Call (Np_random_random [1, 32, 56, 56]), Call (Np_random_random [64, 32, 3, 3])]
     = (Inr (\<lparr>t_shape = [1, 32, 56, 56], t_dtype = ''int8''\<rparr>,
             \<lparr>t_shape = [64, 32, 3, 3], t_dtype = ''int8''\<rparr>,
             Random_random 2 [1, 32, 56, 56], Random_random 3 [64, 32, 3, 3]), tr1) \<and>
     draws tr1 = 4 \<and>
     draws (snd (workload_body E_build_fails ''android'' ''convolutions.log'' ''NCHW'' dt_i8 None
                   ''auto'' ''llvm'' None ''cpu(0)'' (1, w_dw)
                   [Call (Np_random_random [1, 32, 56, 56]),
                    Call (Np_random_random [64, 32, 3, 3])])) = 4"
proof -
  let ?tr = "[Call (Np_random_random [1, 32, 56, 56]), Call (Np_random_random [64, 32, 3, 3])]"
  obtain tr1 where h: "before_schedule E_build_fails ''android'' ''convolutions.log'' ''NCHW''
      dt_i8 ''auto'' ''llvm'' w_dw ?tr
     = (Inr (\<lparr>t_shape = [1, 32, 56, 56], t_dtype = ''int8''\<rparr>,
             \<lparr>t_shape = [64, 32, 3, 3], t_dtype = ''int8''\<rparr>,
             Random_random 2 [1, 32, 56, 56], Random_random 3 [64, 32, 3, 3]), tr1)"
    by (simp add: before_schedule_def prepare_def enter_contexts_def E_build_fails_def E_ok_def
        w_dw_def dt_i8_def run_simps)
  note concl = random_data_drawn_per_workload [where remote = None and target_host = None
      and ctx = "''cpu(0)''" and idx = 1, OF h]
  have d0: "draws ?tr = 2" by (simp add: draws_def)
  from concl [THEN conjunct2, THEN conjunct2, THEN conjunct1]
  have c1: "draws tr1 = 4" by (simp add: d0)
  from concl [THEN conjunct2, THEN conjunct2, THEN conjunct2, THEN conjunct2, THEN conjunct2,
      THEN conjunct1]
  have c2: "draws (snd (workload_body E_build_fails ''android'' ''convolutions.log''
      ''NCHW'' dt_i8 None ''auto'' ''llvm'' None ''cpu(0)'' (1, w_dw) ?tr)) = 4"
    by (simp add: d0)
  from h c1 c2 show ?thesis by blast
qed

text \<open>
  C8, as stated, fails. With no environment variable set, the local run
  \<^verbatim>\<open>bench.py arm64 local\<close> ends with \<^verbatim>\<open>KeyError: 'TVM_TRACKER_HOST'\<close> before it has called
  any collaborator: lines 30-31 read both variables when the module is loaded, before the
  mode is looked at.
\<close>

theorem local_mode_needs_tracker_variables:
  "main E_ok Map.empty [''bench.py'', ''arm64'', ''local''] []
   = (Inl (KeyError ''TVM_TRACKER_HOST''), [])"
  by (simp add: main_def os_environ_def io_bind_def io_raise_def)

text \<open>
  C8, amended. The two tracker variables are read in every mode, when the module is loaded:
  when the host variable is unset the program ends with \<^verbatim>\<open>KeyError\<close> on it, and when only the
  port variable is unset with \<^verbatim>\<open>KeyError\<close> on that one, in both cases before any collaborator
  is called and whatever the arguments are. Their values are used only to connect to the
  tracker, which happens exactly when both are set, the port is numeric, the mode is
  \<^verbatim>\<open>remote\<close> and the device key is given; no other run connects to the tracker.
\<close>

theorem tracker_variables_read_in_every_mode:
  "(environ ''TVM_TRACKER_HOST'' = None \<longrightarrow>
      main E environ argv tr = (Inl (KeyError ''TVM_TRACKER_HOST''), tr)) \<and>
   (environ ''TVM_TRACKER_HOST'' = Some host \<and> environ ''TVM_TRACKER_PORT'' = None \<longrightarrow>
      main E environ argv tr = (Inl (KeyError ''TVM_TRACKER_PORT''), tr)) \<and>
   filter is_connect (snd (main E environ argv tr))
   = filter is_connect tr @
     (case (environ ''TVM_TRACKER_HOST'', environ ''TVM_TRACKER_PORT'') of
        (Some h, Some p) \<Rightarrow>
          (case returns_int E tr (Builtin_int p) of
             Inr n \<Rightarrow> if 3 < length argv \<and> argv ! 2 = ''remote''
                      then [Call (Rpc_connect_tracker h n)] else []
           | Inl e \<Rightarrow> [])
      | _ \<Rightarrow> [])"
proof (intro conjI impI)
  assume "environ ''TVM_TRACKER_HOST'' = None"
  then show "main E environ argv tr = (Inl (KeyError ''TVM_TRACKER_HOST''), tr)"
    by (simp add: main_def os_environ_def io_bind_def io_raise_def)
next
  assume "environ ''TVM_TRACKER_HOST'' = Some host \<and> environ ''TVM_TRACKER_PORT'' = None"
  then show "main E environ argv tr = (Inl (KeyError ''TVM_TRACKER_PORT''), tr)"
    by (simp add: main_def os_environ_def io_bind_def io_raise_def io_return_def)
next
  have rest: "\<And>log_file arch key remote t.
      filter is_connect (snd (run_benchmarks E argv log_file arch key remote t))
      = filter is_connect t"
    by (rule silentD, rule silent_run_benchmarks) (simp_all split: extcall.splits)
  show "filter is_connect (snd (main E environ argv tr))
   = filter is_connect tr @
     (case (environ ''TVM_TRACKER_HOST'', environ ''TVM_TRACKER_PORT'') of
        (Some h, Some p) \<Rightarrow>
          (case returns_int E tr (Builtin_int p) of
             Inr n \<Rightarrow> if 3 < length argv \<and> argv ! 2 = ''remote''
                      then [Call (Rpc_connect_tracker h n)] else []
           | Inl e \<Rightarrow> [])
      | _ \<Rightarrow> [])"
    by (simp add: main_run_benchmarks os_environ_def sys_argv_def io_bind_def io_raise_def
        io_return_def ext_def rest split: option.splits sum.splits)
qed

theorem tracker_variables_read_in_every_mode_witness:
  "main E_ok Map.empty [''bench.py'', ''arm64'', ''local''] []
   = (Inl (KeyError ''TVM_TRACKER_HOST''), []) \<and>
   main E_ok [''TVM_TRACKER_HOST'' \<mapsto> ''10.0.0.1''] [''bench.py'', ''arm64'', ''local''] []
   = (Inl (KeyError ''TVM_TRACKER_PORT''), []) \<and>
   filter is_connect
     (snd (main E_ok [''TVM_TRACKER_HOST'' \<mapsto> ''10.0.0.1'', ''TVM_TRACKER_PORT'' \<mapsto> ''9190'']
             [''bench.py'', ''arm64'', ''remote'', ''pixel''] []))
   = [Call (Rpc_connect_tracker ''10.0.0.1'' 9090)] \<and>
   filter is_connect
     (snd (main E_ok [''TVM_TRACKER_HOST'' \<mapsto> ''10.0.0.1'', ''TVM_TRACKER_PORT'' \<mapsto> ''9190'']
             [''bench.py'', ''arm64'', ''local''] []))
   = []"
proof -
  have a: "main E_ok Map.empty [''bench.py'', ''arm64'', ''local''] []
           = (Inl (KeyError ''TVM_TRACKER_HOST''), [])"
    using tracker_variables_read_in_every_mode [where E = E_ok and environ = Map.empty
        and argv = "[''bench.py'', ''arm64'', ''local'']" and tr = "[]", THEN conjunct1]
    by simp
  have b: "main E_ok [''TVM_TRACKER_HOST'' \<mapsto> ''10.0.0.1''] [''bench.py'', ''arm64'', ''local''] []
           = (Inl (KeyError ''TVM_TRACKER_PORT''), [])"
    using tracker_variables_read_in_every_mode [where E = E_ok
        and environ = "[''TVM_TRACKER_HOST'' \<mapsto> ''10.0.0.1'']" and host = "''10.0.0.1''"
        and argv = "[''bench.py'', ''arm64'', ''local'']" and tr = "[]",
        THEN conjunct2, THEN conjunct1]
    by simp
  have c: "filter is_connect
     (snd (main E_ok [''TVM_TRACKER_HOST'' \<mapsto> ''10.0.0.1'', ''TVM_TRACKER_PORT'' \<mapsto> ''9190'']
             [''bench.py'', ''arm64'', ''remote'', ''pixel''] []))
   = [Call (Rpc_connect_tracker ''10.0.0.1'' 9090)]"
    using tracker_variables_read_in_every_mode [where E = E_ok
        and environ = "[''TVM_TRACKER_HOST'' \<mapsto> ''10.0.0.1'', ''TVM_TRACKER_PORT'' \<mapsto> ''9190'']"
        and argv = "[''bench.py'', ''arm64'', ''remote'', ''pixel'']" and tr = "[]",
        THEN conjunct2, THEN conjunct2]
    by (simp add: E_ok_def)
  have d: "filter is_connect
     (snd (main E_ok [''TVM_TRACKER_HOST'' \<mapsto> ''10.0.0.1'', ''TVM_TRACKER_PORT'' \<mapsto> ''9190'']
             [''bench.py'', ''arm64'', ''local''] []))
   = []"
    using tracker_variables_read_in_every_mode [where E = E_ok
        and environ = "[''TVM_TRACKER_HOST'' \<mapsto> ''10.0.0.1'', ''TVM_TRACKER_PORT'' \<mapsto> ''9190'']"
        and argv = "[''bench.py'', ''arm64'', ''local'']" and tr = "[]",
        THEN conjunct2, THEN conjunct2]
    by (simp add: E_ok_def)
  from a b c d show ?thesis by (intro conjI)
qed




text \<open>
  C10. For a workload whose schedule construction returned the operator \<open>conv\<close>: when the
  allocation step succeeds it has made exactly three device buffers, the input and the filter
  from the two random arrays cast to the numpy dtype and the output from
  \<^verbatim>\<open>np.zeros(conv.shape, dtype=conv.dtype)\<close>, before any kernel call; every warmup and timed
  call made afterwards for the workload gets exactly these three buffers, and nothing else is
  allocated. When the allocation step fails no kernel is called. When the operator honours
  the output dtype it is asked for, the dtype of \<open>conv\<close>, hence of the zero buffer, is
  \<^verbatim>\<open>int32\<close> for \<^verbatim>\<open>int8\<close> inputs.
\<close>

theorem output_buffer_is_fresh_zeros:
  assumes sched: "get_conv_ts E input_holder filter_holder (wl_stride workload)
                    (wl_pad workload) layout dtype (wl_depthwise workload) tr
                  = (Inr (conv, ts), tr1)"
    and honours: "\<And>h c t od. returns_tensor E h c = Inr t \<Longrightarrow>
                    requested_out_dtype (Call c) = Some od \<Longrightarrow> t_dtype t = od"
  shows "t_dtype conv = (if tvm_type dtype = ''int8'' then ''int32'' else tvm_type dtype) \<and>
    (case allocate E layout dtype ctx workload input_data filter_data conv tr1 of
       (Inl e, tr2) \<Rightarrow>
         List.map_filter kernel_buffers
           (snd (allocate_and_run E layout dtype remote target target_host ctx idx workload
                   input_holder filter_holder input_data filter_data conv ts tr1))
         = List.map_filter kernel_buffers tr1
     | (Inr (tvm_input, tvm_filter, tvm_output, ops), tr2) \<Rightarrow>
         tvm_input = NDArray (Astype input_data (np_type dtype)) ctx \<and>
         tvm_filter = NDArray (Astype filter_data (np_type dtype)) ctx \<and>
         tvm_output = NDArray (Zeros (t_shape conv) (t_dtype conv)) ctx \<and>
         List.map_filter allocated_from tr2
         = List.map_filter allocated_from tr1 @
           [Astype input_data (np_type dtype), Astype filter_data (np_type dtype),
            Zeros (t_shape conv) (t_dtype conv)] \<and>
         List.map_filter kernel_buffers tr2 = List.map_filter kernel_buffers tr1 \<and>
         List.map_filter allocated_from
           (snd (allocate_and_run E layout dtype remote target target_host ctx idx workload
                   input_holder filter_holder input_data filter_data conv ts tr1))
         = List.map_filter allocated_from tr2 \<and>
         (\<exists>n. List.map_filter kernel_buffers
                (snd (allocate_and_run E layout dtype remote target target_host ctx idx workload
                        input_holder filter_holder input_data filter_data conv ts tr1))
              = List.map_filter kernel_buffers tr2 @
                replicate n (tvm_input, tvm_filter, tvm_output)))"
proof -
  let ?alloc = "allocate E layout dtype ctx workload input_data filter_data conv"
  let ?phase = "if wl_depthwise workload then ''depthwise'' else ''standard''"
  have dt: "t_dtype conv = (if tvm_type dtype = ''int8'' then ''int32'' else tvm_type dtype)"
    using sched honours by (rule get_conv_ts_honoured)
  have rest: "case ?alloc tr1 of
       (Inl e, tr2) \<Rightarrow>
         List.map_filter kernel_buffers
           (snd (allocate_and_run E layout dtype remote target target_host ctx idx workload
                   input_holder filter_holder input_data filter_data conv ts tr1))
         = List.map_filter kernel_buffers tr1
     | (Inr (tvm_input, tvm_filter, tvm_output, ops), tr2) \<Rightarrow>
         tvm_input = NDArray (Astype input_data (np_type dtype)) ctx \<and>
         tvm_filter = NDArray (Astype filter_data (np_type dtype)) ctx \<and>
         tvm_output = NDArray (Zeros (t_shape conv) (t_dtype conv)) ctx \<and>
         List.map_filter allocated_from tr2
         = List.map_filter allocated_from tr1 @
           [Astype input_data (np_type dtype), Astype filter_data (np_type dtype),
            Zeros (t_shape conv) (t_dtype conv)] \<and>
         List.map_filter kernel_buffers tr2 = List.map_filter kernel_buffers tr1 \<and>
         List.map_filter allocated_from
           (snd (allocate_and_run E layout dtype remote target target_host ctx idx workload
                   input_holder filter_holder input_data filter_data conv ts tr1))
         = List.map_filter allocated_from tr2 \<and>
         (\<exists>n. List.map_filter kernel_buffers
                (snd (allocate_and_run E layout dtype remote target target_host ctx idx workload
                        input_holder filter_holder input_data filter_data conv ts tr1))
              = List.map_filter kernel_buffers tr2 @
                replicate n (tvm_input, tvm_filter, tvm_output))"
  proof (cases "?alloc tr1")
    case (Pair r tr2)
    from allocate_no_kernel_call [of E layout dtype ctx workload input_data filter_data conv tr1]
      Pair
    have k: "List.map_filter kernel_buffers tr2 = List.map_filter kernel_buffers tr1" by simp
    show ?thesis
    proof (cases r)
      case (Inl e)
      with Pair k show ?thesis by (simp add: allocate_and_run_def Let_def io_bind_def)
    next
      case (Inr bufs)
      obtain i w out ops where bufs: "bufs = (i, w, out, ops)" by (cases bufs) auto
      note al = Pair [unfolded Inr bufs]
      note ar = allocate_result [OF al]
      have three: "List.map_filter allocated_from tr2
         = List.map_filter allocated_from tr1 @
           [Astype input_data (np_type dtype), Astype filter_data (np_type dtype),
            Zeros (t_shape conv) (t_dtype conv)]"
        using al unfolding allocate_def
        by (auto simp: io_bind_def tvm_nd_array_def ext_def io_return_def io_raise_def
            const_tuple_at_def map_filter_append List.map_filter_simps
            split: sum.splits if_splits)
      let ?b = "build_and_run E ?phase idx input_holder filter_holder (wl_kernel workload)
               (wl_space workload) (wl_input_channel workload) (wl_output_channel workload)
               (wl_stride workload) (wl_pad workload) layout i w out ctx ts conv target
               target_host (wl_warmup workload) (wl_run workload) ops remote"
      have run: "allocate_and_run E layout dtype remote target target_host ctx idx workload
                   input_holder filter_holder input_data filter_data conv ts tr1 = ?b tr2"
        using al by (simp add: allocate_and_run_def Let_def io_bind_def)
      have na: "List.map_filter allocated_from (snd (?b tr2)) = List.map_filter allocated_from tr2"
        by (rule map_filter_silent, rule silent_build_and_run) (simp_all split: extcall.splits)
      from build_and_run_buffers [of E ?phase idx input_holder filter_holder "wl_kernel workload"
          "wl_space workload" "wl_input_channel workload" "wl_output_channel workload"
          "wl_stride workload" "wl_pad workload" layout i w out ctx ts conv target target_host
          "wl_warmup workload" "wl_run workload" ops remote tr2]
      obtain n where
        "List.map_filter kernel_buffers (snd (?b tr2))
         = List.map_filter kernel_buffers tr2 @ replicate n (i, w, out)"
        by blast
      with al ar three k na run show ?thesis by auto
    qed
  qed
  from dt rest show ?thesis by (rule conjI)
qed

theorem output_buffer_is_fresh_zeros_witness:
  "\<exists>tr1.
     get_conv_ts E_ok \<lparr>t_shape = [1, 56, 56, 32], t_dtype = ''int8''\<rparr>
       \<lparr>t_shape = [3, 3, 32, 1], t_dtype = ''int8''\<rparr> (wl_stride w_dw) (wl_pad w_dw) ''NHWC''
       dt_i8 (wl_depthwise w_dw) []
     = (Inr (\<lparr>t_shape = [1, 64, 56, 56], t_dtype = ''int32''\<rparr>, ''handle''), tr1) \<and>
     fst (allocate E_ok ''NHWC'' dt_i8 ''cpu(0)'' w_dw (Random_random 0 [1, 56, 56, 32])
            (Random_random 1 [3, 3, 32, 1])
            \<lparr>t_shape = [1, 64, 56, 56], t_dtype = ''int32''\<rparr> tr1)
     = Inr (NDArray (Astype (Random_random 0 [1, 56, 56, 32]) ''int8'') ''cpu(0)'',
            NDArray (Astype (Random_random 1 [3, 3, 32, 1]) ''int8'') ''cpu(0)'',
            NDArray (Zeros [1, 64, 56, 56] ''int32'') ''cpu(0)'', 9090) \<and>
     List.map_filter allocated_from
       (snd (allocate_and_run E_ok ''NHWC'' dt_i8 None ''llvm'' None ''cpu(0)'' 0 w_dw
               \<lparr>t_shape = [1, 56, 56, 32], t_dtype = ''int8''\<rparr>
               \<lparr>t_shape = [3, 3, 32, 1], t_dtype = ''int8''\<rparr>
               (Random_random 0 [1, 56, 56, 32]) (Random_random 1 [3, 3, 32, 1])
               \<lparr>t_shape = [1, 64, 56, 56], t_dtype = ''int32''\<rparr> ''handle'' tr1))
     = List.map_filter allocated_from tr1 @
       [Astype (Random_random 0 [1, 56, 56, 32]) ''int8'',
        Astype (Random_random 1 [3, 3, 32, 1]) ''int8'', Zeros [1, 64, 56, 56] ''int32'']"
proof -
  let ?ih = "\<lparr>t_shape = [1, 56, 56, 32], t_dtype = ''int8''\<rparr>"
  let ?fh = "\<lparr>t_shape = [3, 3, 32, 1], t_dtype = ''int8''\<rparr>"
  let ?conv = "\<lparr>t_shape = [1, 64, 56, 56], t_dtype = ''int32''\<rparr>"
  obtain tr1 where h: "get_conv_ts E_ok ?ih ?fh (wl_stride w_dw) (wl_pad w_dw) ''NHWC'' dt_i8
      (wl_depthwise w_dw) [] = (Inr (?conv, ''handle''), tr1)"
    by (simp add: get_conv_ts_def E_ok_def w_dw_def dt_i8_def run_simps)
  have hon: "\<And>h c t od. returns_tensor E_ok h c = Inr t \<Longrightarrow>
               requested_out_dtype (Call c) = Some od \<Longrightarrow> t_dtype t = od"
    by (auto simp: E_ok_def)
  obtain tr2 where a: "allocate E_ok ''NHWC'' dt_i8 ''cpu(0)'' w_dw
            (Random_random 0 [1, 56, 56, 32]) (Random_random 1 [3, 3, 32, 1]) ?conv tr1
     = (Inr (NDArray (Astype (Random_random 0 [1, 56, 56, 32]) ''int8'') ''cpu(0)'',
            NDArray (Astype (Random_random 1 [3, 3, 32, 1]) ''int8'') ''cpu(0)'',
            NDArray (Zeros [1, 64, 56, 56] ''int32'') ''cpu(0)'', 9090), tr2)"
    by (simp add: allocate_def E_ok_def w_dw_def dt_i8_def run_simps)
  note concl = output_buffer_is_fresh_zeros [where ctx = "''cpu(0)''"
      and input_data = "Random_random 0 [1, 56, 56, 32]"
      and filter_data = "Random_random 1 [3, 3, 32, 1]" and remote = None
      and target = "''llvm''" and target_host = None and idx = 0, OF h hon]
  from concl [unfolded a] have c: "List.map_filter allocated_from
       (snd (allocate_and_run E_ok ''NHWC'' dt_i8 None ''llvm'' None ''cpu(0)'' 0 w_dw ?ih ?fh
               (Random_random 0 [1, 56, 56, 32]) (Random_random 1 [3, 3, 32, 1]) ?conv
               ''handle'' tr1))
     = List.map_filter allocated_from tr1 @
       [Astype (Random_random 0 [1, 56, 56, 32]) ''int8'',
        Astype (Random_random 1 [3, 3, 32, 1]) ''int8'', Zeros [1, 64, 56, 56] ''int32'']"
    by (simp add: dt_i8_def)
  from a have a': "fst (allocate E_ok ''NHWC'' dt_i8 ''cpu(0)'' w_dw
            (Random_random 0 [1, 56, 56, 32]) (Random_random 1 [3, 3, 32, 1]) ?conv tr1)
     = Inr (NDArray (Astype (Random_random 0 [1, 56, 56, 32]) ''int8'') ''cpu(0)'',
            NDArray (Astype (Random_random 1 [3, 3, 32, 1]) ''int8'') ''cpu(0)'',
            NDArray (Zeros [1, 64, 56, 56] ''int32'') ''cpu(0)'', 9090)"
    by simp
  from h a' c show ?thesis by blast
qed

end
